theory Spec2Isabelle
  imports Complex_Main "HOL-Library.AList" "HOL-Library.Sublist"
begin

section \<open>Record model\<close>

text \<open>
  The entities of \<^verbatim>\<open>mlflow.entities\<close> and \<^verbatim>\<open>mlflow.evaluation.evaluation\<close>
  that \<^verbatim>\<open>mlflow/evaluation/fluent.py\<close> works on. An assessment value is exactly one of
  a boolean, a number or a string; \<^verbatim>\<open>get_value_type\<close> names which.
\<close>

datatype value_type = TBoolean | TNumeric | TString

datatype assessment_value = BooleanValue bool | NumericValue real | StringValue string

fun value_type_of :: "assessment_value \<Rightarrow> value_type" where
  "value_type_of (BooleanValue _) = TBoolean"
| "value_type_of (NumericValue _) = TNumeric"
| "value_type_of (StringValue _) = TString"

datatype source_type = HUMAN | AI_JUDGE | CODE

datatype assessment_source =
  AssessmentSource (source_type: source_type) (source_id: string)

text \<open>The caller-facing \<^verbatim>\<open>Assessment\<close>: it has no evaluation id yet.\<close>

record assessment =
  a_name :: string
  a_source :: assessment_source
  a_value :: assessment_value
  a_rationale :: "string option"
  a_metadata :: "(string \<times> string) list"

text \<open>
  \<^verbatim>\<open>AssessmentEntity\<close>, which is also one row of the assessments table: the table
  holds \<^verbatim>\<open>to_dictionary()\<close> of each entity, and \<^verbatim>\<open>from_dictionary\<close> reads a row
  back, so a row and an entity carry the same fields.
\<close>

record assessment_entity =
  ae_evaluation_id :: string
  ae_name :: string
  ae_source :: assessment_source
  ae_value :: assessment_value
  ae_rationale :: "string option"
  ae_metadata :: "(string \<times> string) list"

definition get_value_type :: "assessment_entity \<Rightarrow> value_type" where
  "get_value_type e = value_type_of (ae_value e)"

record metric =
  key :: string
  metric_value :: real
  timestamp :: int
  step :: int

datatype error_code = INTERNAL_ERROR | INVALID_PARAMETER_VALUE | RESOURCE_DOES_NOT_EXIST

text \<open>
  The messages of the exceptions, with the values the source formats into them kept
  as arguments.
\<close>

datatype message =
    AllElementsMustBeDictionaries
  | ValueTypeDoesNotMatch string value_type value_type
  | RunDoesNotContainEvaluations
  | EvaluationIdDoesNotExist string string
  | ExpectedSingleEvaluation string nat
  | AssessmentsHaveDifferentValueTypes
  | ArtifactDoesNotExist string
  | ArtifactIsNotThisTable string

datatype error =
    MlflowException message error_code
  | ValueError message
  | AttributeError
  | IndexError
  | WriteFailed string

section \<open>Assessment merge engine\<close>

text \<open>
  Modelled from the spec: \<^verbatim>\<open>append_to_assessments_dataframe\<close> of
  \<^verbatim>\<open>mlflow.evaluation.utils\<close> is not among the sources. The spec (4.3, step 3) says that
  a new row is appended; the row is the entity's dictionary.
\<close>

definition append_to_assessments_dataframe ::
  "assessment_entity list \<Rightarrow> assessment_entity list \<Rightarrow> assessment_entity list" where
  "append_to_assessments_dataframe assessments_df assessments = assessments_df @ assessments"

text \<open>
  \<^verbatim>\<open>_add_assessment_to_df\<close> (lines 250-306). The table is the list of its rows and
  a row's index label is its position. The boolean masks of the source are the two
  predicates below; \<^verbatim>\<open>.index\<close> of the masked table is the list of positions where the
  mask holds, and the assignment through \<^verbatim>\<open>.loc\<close> writes the new dictionary, with
  \<^verbatim>\<open>evaluation_id\<close> stamped again, at each of them. The check of the value types
  (lines 274-285) raises before the table is touched; the merged table is named ahead
  of it below, as the value that is returned when the check passes.
\<close>

definition matches_name :: "string \<Rightarrow> assessment_entity \<Rightarrow> assessment_entity \<Rightarrow> bool" where
  "matches_name evaluation_id assessment row \<longleftrightarrow>
     ae_evaluation_id row = evaluation_id \<and> ae_name row = ae_name assessment"

definition matches_name_and_source ::
  "string \<Rightarrow> assessment_entity \<Rightarrow> assessment_entity \<Rightarrow> bool" where
  "matches_name_and_source evaluation_id assessment row \<longleftrightarrow>
     ae_evaluation_id row = evaluation_id \<and> ae_name row = ae_name assessment
     \<and> ae_source row = ae_source assessment"

definition add_assessment_to_df ::
  "assessment_entity list \<Rightarrow> assessment_entity \<Rightarrow> string \<Rightarrow> error + assessment_entity list" where
  "add_assessment_to_df assessments_df assessment evaluation_id =
     (let existing_assessments_matching_name =
            filter (matches_name evaluation_id assessment) assessments_df;
          existing_assessment_index =
            filter (\<lambda>i. matches_name_and_source evaluation_id assessment (assessments_df ! i))
              [0..<length assessments_df];
          merged =
            (if existing_assessment_index \<noteq> []
             then fold (\<lambda>i df. df[i := assessment\<lparr>ae_evaluation_id := evaluation_id\<rparr>])
                    existing_assessment_index assessments_df
             else append_to_assessments_dataframe assessments_df [assessment])
      in case existing_assessments_matching_name of
           [] \<Rightarrow> Inr merged
         | existing # _ \<Rightarrow>
             if \<not> list_all (\<lambda>existing_assessment.
                      get_value_type assessment = get_value_type existing_assessment)
                    existing_assessments_matching_name
             then Inl (MlflowException
                        (ValueTypeDoesNotMatch (ae_name assessment)
                           (get_value_type assessment) (get_value_type existing))
                        INVALID_PARAMETER_VALUE)
             else Inr merged)"

text \<open>The loop of \<^verbatim>\<open>log_assessments\<close> (lines 235-238); an exception leaves it.\<close>

fun add_assessments_to_df ::
  "assessment_entity list \<Rightarrow> assessment_entity list \<Rightarrow> string \<Rightarrow> error + assessment_entity list" where
  "add_assessments_to_df assessments_df [] evaluation_id = Inr assessments_df"
| "add_assessments_to_df assessments_df (assessment # assessments) evaluation_id =
     (case add_assessment_to_df assessments_df assessment evaluation_id of
        Inl e \<Rightarrow> Inl e
      | Inr df \<Rightarrow> add_assessments_to_df df assessments evaluation_id)"

section \<open>Evaluations and the three tables\<close>

record evaluation =
  inputs :: "(string \<times> string) list"
  outputs :: "(string \<times> string) list"
  inputs_id :: "string option"
  request_id :: "string option"
  targets :: "(string \<times> string) list option"
  assessments :: "assessment list option"
  metrics :: "metric list option"

record evaluation_entity =
  ee_evaluation_id :: string
  ee_run_id :: string
  ee_inputs_id :: "string option"
  ee_inputs :: "(string \<times> string) list"
  ee_outputs :: "(string \<times> string) list"
  ee_request_id :: "string option"
  ee_targets :: "(string \<times> string) list option"
  ee_assessments :: "assessment_entity list"
  ee_metrics :: "metric list"

record evaluation_row =
  er_evaluation_id :: string
  er_run_id :: string
  er_inputs_id :: "string option"
  er_inputs :: "(string \<times> string) list"
  er_outputs :: "(string \<times> string) list"
  er_request_id :: "string option"
  er_targets :: "(string \<times> string) list option"

record metric_row =
  mr_evaluation_id :: string
  mr_metric :: metric

datatype artifact =
    EvaluationsTable "evaluation_row list"
  | MetricsTable "metric_row list"
  | AssessmentsTable "assessment_entity list"

text \<open>
  Modelled from the spec: \<^verbatim>\<open>Assessment._to_entity\<close>, \<^verbatim>\<open>Assessment.from_dictionary\<close>
  and \<^verbatim>\<open>Evaluation._to_entity\<close> of \<^verbatim>\<open>mlflow.evaluation.evaluation\<close> are not among the
  sources. By the spec (3, 4.1) the entity is the caller's record with the evaluation id
  (and, for an evaluation, the run id) assigned at log time, and the dictionary form of
  an assessment holds the same fields as the object and converts without loss. An
  \<^verbatim>\<open>inputs_id\<close> that the caller left out stays absent: how one is derived from the
  inputs is not in the sources.
\<close>

definition assessment_to_entity :: "string \<Rightarrow> assessment \<Rightarrow> assessment_entity" where
  "assessment_to_entity evaluation_id a =
     \<lparr>ae_evaluation_id = evaluation_id, ae_name = a_name a, ae_source = a_source a,
      ae_value = a_value a, ae_rationale = a_rationale a, ae_metadata = a_metadata a\<rparr>"

datatype assessment_arg = AssessmentDict assessment | AssessmentObj assessment

fun is_dict :: "assessment_arg \<Rightarrow> bool" where
  "is_dict (AssessmentDict _) = True"
| "is_dict (AssessmentObj _) = False"

fun from_dictionary :: "assessment_arg \<Rightarrow> assessment" where
  "from_dictionary (AssessmentDict d) = d"
| "from_dictionary (AssessmentObj a) = a"

fun the_assessment :: "assessment_arg \<Rightarrow> assessment" where
  "the_assessment (AssessmentObj a) = a"
| "the_assessment (AssessmentDict d) = d"

definition evaluation_to_entity :: "string \<Rightarrow> string \<Rightarrow> evaluation \<Rightarrow> evaluation_entity" where
  "evaluation_to_entity run_id evaluation_id ev =
     \<lparr>ee_evaluation_id = evaluation_id, ee_run_id = run_id, ee_inputs_id = inputs_id ev,
      ee_inputs = inputs ev, ee_outputs = outputs ev, ee_request_id = request_id ev,
      ee_targets = targets ev,
      ee_assessments =
        (case assessments ev of None \<Rightarrow> []
         | Some xs \<Rightarrow> map (assessment_to_entity evaluation_id) xs),
      ee_metrics = (case metrics ev of None \<Rightarrow> [] | Some ms \<Rightarrow> ms)\<rparr>"

text \<open>
  Modelled from the spec: the table codec \<^verbatim>\<open>evaluations_to_dataframes\<close> and
  \<^verbatim>\<open>dataframes_to_evaluations\<close> of \<^verbatim>\<open>mlflow.evaluation.utils\<close> is not among the
  sources. By the spec (4.2) the entities become three flat tables in which each metric
  and assessment row carries its parent's evaluation id, and decoding attaches to each
  evaluation row the metrics and assessments of its id.
\<close>

definition evaluations_to_dataframes ::
  "evaluation_entity list \<Rightarrow> evaluation_row list \<times> metric_row list \<times> assessment_entity list" where
  "evaluations_to_dataframes evaluation_entities =
     (map (\<lambda>e. \<lparr>er_evaluation_id = ee_evaluation_id e, er_run_id = ee_run_id e,
                 er_inputs_id = ee_inputs_id e, er_inputs = ee_inputs e,
                 er_outputs = ee_outputs e, er_request_id = ee_request_id e,
                 er_targets = ee_targets e\<rparr>) evaluation_entities,
      concat (map (\<lambda>e. map (\<lambda>m. \<lparr>mr_evaluation_id = ee_evaluation_id e, mr_metric = m\<rparr>)
                          (ee_metrics e)) evaluation_entities),
      concat (map ee_assessments evaluation_entities))"

definition dataframes_to_evaluations ::
  "evaluation_row list \<Rightarrow> metric_row list \<Rightarrow> assessment_entity list \<Rightarrow> evaluation_entity list" where
  "dataframes_to_evaluations evaluations_df metrics_df assessments_df =
     map (\<lambda>row.
           \<lparr>ee_evaluation_id = er_evaluation_id row, ee_run_id = er_run_id row,
            ee_inputs_id = er_inputs_id row, ee_inputs = er_inputs row,
            ee_outputs = er_outputs row, ee_request_id = er_request_id row,
            ee_targets = er_targets row,
            ee_assessments =
              filter (\<lambda>a. ae_evaluation_id a = er_evaluation_id row) assessments_df,
            ee_metrics =
              map mr_metric
                (filter (\<lambda>m. mr_evaluation_id m = er_evaluation_id row) metrics_df)\<rparr>)
       evaluations_df"

text \<open>
  Modelled from the spec: the readers \<^verbatim>\<open>read_evaluations_dataframe\<close>,
  \<^verbatim>\<open>read_metrics_dataframe\<close> and \<^verbatim>\<open>read_assessments_dataframe\<close> of
  \<^verbatim>\<open>mlflow.evaluation.utils\<close> are not among the sources. A reader decodes the table
  that was written (spec 6) and fails on a file that holds another table.
\<close>

definition read_evaluations_dataframe :: "artifact \<Rightarrow> error + evaluation_row list" where
  "read_evaluations_dataframe file =
     (case file of EvaluationsTable rows \<Rightarrow> Inr rows
      | _ \<Rightarrow> Inl (ValueError (ArtifactIsNotThisTable ''_evaluations.json'')))"

definition read_metrics_dataframe :: "artifact \<Rightarrow> error + metric_row list" where
  "read_metrics_dataframe file =
     (case file of MetricsTable rows \<Rightarrow> Inr rows
      | _ \<Rightarrow> Inl (ValueError (ArtifactIsNotThisTable ''_metrics.json'')))"

definition read_assessments_dataframe :: "artifact \<Rightarrow> error + assessment_entity list" where
  "read_assessments_dataframe file =
     (case file of AssessmentsTable rows \<Rightarrow> Inr rows
      | _ \<Rightarrow> Inl (ValueError (ArtifactIsNotThisTable ''_assessments.json'')))"

section \<open>The run: artifacts, metric store, identities, clock\<close>

text \<open>
  Modelled from the spec: \<^verbatim>\<open>MlflowClient\<close>, \<^verbatim>\<open>_get_or_start_run\<close>, and the
  identity and time sources are collaborators outside the sources (spec 6). A run holds
  artifacts by path and a series of logged metric batches; writing a table stores it
  under its path; a table write can fail (spec 7), and then stores nothing. The store
  also keeps, in order, the calls made on the client and on the stats aggregator.
\<close>

datatype call =
    ListArtifacts string
  | DownloadArtifacts string string
  | LogTable string string
  | LogArtifact string string
  | LogBatch string "metric list"
  | ComputeAssessmentStats string

record store =
  artifacts :: "string \<Rightarrow> (string \<times> artifact) list"
  run_metrics :: "(string \<times> metric list) list"
  active_run :: string
  uuids :: "nat \<Rightarrow> string"
  uuids_drawn :: nat
  clock :: "nat \<Rightarrow> int"
  clock_reads :: nat
  failing_writes :: "string set"
  calls :: "call list"

type_synonym 'a action = "store \<Rightarrow> (error + 'a) \<times> store"

definition and_then :: "'a action \<Rightarrow> ('a \<Rightarrow> 'b action) \<Rightarrow> 'b action" where
  "and_then m f s = (case m s of (Inl e, s') \<Rightarrow> (Inl e, s') | (Inr x, s') \<Rightarrow> f x s')"

definition lift :: "error + 'a \<Rightarrow> 'a action" where
  "lift r s = (r, s)"

definition get_or_start_run :: "store \<Rightarrow> string" where
  "get_or_start_run s = active_run s"

definition uuid4_hex :: "store \<Rightarrow> string \<times> store" where
  "uuid4_hex s = (uuids s (uuids_drawn s), s\<lparr>uuids_drawn := Suc (uuids_drawn s)\<rparr>)"

definition time_ms :: "store \<Rightarrow> int \<times> store" where
  "time_ms s = (clock s (clock_reads s), s\<lparr>clock_reads := Suc (clock_reads s)\<rparr>)"

definition list_artifacts :: "string \<Rightarrow> store \<Rightarrow> string list \<times> store" where
  "list_artifacts run_id s =
     (map fst (artifacts s run_id), s\<lparr>calls := calls s @ [ListArtifacts run_id]\<rparr>)"

definition download_artifacts :: "string \<Rightarrow> string \<Rightarrow> artifact action" where
  "download_artifacts run_id path s =
     (case map_of (artifacts s run_id) path of
        None \<Rightarrow> Inl (MlflowException (ArtifactDoesNotExist path) RESOURCE_DOES_NOT_EXIST)
      | Some file \<Rightarrow> Inr file,
      s\<lparr>calls := calls s @ [DownloadArtifacts run_id path]\<rparr>)"

definition log_table :: "string \<Rightarrow> artifact \<Rightarrow> string \<Rightarrow> unit action" where
  "log_table run_id data artifact_file s =
     (if artifact_file \<in> failing_writes s
      then (Inl (WriteFailed artifact_file),
            s\<lparr>calls := calls s @ [LogTable run_id artifact_file]\<rparr>)
      else (Inr (),
            s\<lparr>artifacts := (artifacts s)
                  (run_id := AList.update artifact_file data (artifacts s run_id)),
              calls := calls s @ [LogTable run_id artifact_file]\<rparr>))"

definition log_artifact_helper :: "string \<Rightarrow> string \<Rightarrow> artifact \<Rightarrow> unit action" where
  "log_artifact_helper run_id artifact_file data s =
     (if artifact_file \<in> failing_writes s
      then (Inl (WriteFailed artifact_file),
            s\<lparr>calls := calls s @ [LogArtifact run_id artifact_file]\<rparr>)
      else (Inr (),
            s\<lparr>artifacts := (artifacts s)
                  (run_id := AList.update artifact_file data (artifacts s run_id)),
              calls := calls s @ [LogArtifact run_id artifact_file]\<rparr>))"

definition log_batch :: "string \<Rightarrow> metric list \<Rightarrow> store \<Rightarrow> store" where
  "log_batch run_id ms s =
     s\<lparr>run_metrics := run_metrics s @ [(run_id, ms)],
       calls := calls s @ [LogBatch run_id ms]\<rparr>"

section \<open>Stats aggregator\<close>

text \<open>
  Modelled from the spec: \<^verbatim>\<open>compute_assessment_stats_by_source\<close> of
  \<^verbatim>\<open>mlflow.evaluation.utils\<close> is not among the sources. By the spec (4.4) it groups
  the rows of the given name by source; the result is keyed by source, in the order in
  which the sources first occur. The statistics of a group are a function of the
  group's values, which the result keeps; \<^verbatim>\<open>to_metrics\<close>, which turns them into metric
  records, is a parameter of the functions below.
\<close>

record assessment_stats =
  stats_name :: string
  stats_source :: assessment_source
  stats_values :: "assessment_value list"

definition unique :: "'a list \<Rightarrow> 'a list" where
  "unique xs = rev (remdups (rev xs))"

definition compute_assessment_stats_by_source ::
  "assessment_entity list \<Rightarrow> string \<Rightarrow> (assessment_source \<times> assessment_stats) list" where
  "compute_assessment_stats_by_source assessments_df assessment_name =
     (let matching = filter (\<lambda>row. ae_name row = assessment_name) assessments_df
      in map (\<lambda>src. (src, \<lparr>stats_name = assessment_name, stats_source = src,
                            stats_values =
                              map ae_value (filter (\<lambda>row. ae_source row = src) matching)\<rparr>))
           (unique (map ae_source matching)))"

text \<open>
  \<^verbatim>\<open>_update_assessments_stats\<close> (lines 309-327): the outer loop over the names, the
  inner loop over the values of the dictionary, one \<^verbatim>\<open>log_batch\<close> each.
\<close>

definition update_assessments_stats ::
  "(assessment_stats \<Rightarrow> metric list) \<Rightarrow> string \<Rightarrow> assessment_entity list \<Rightarrow> string list
     \<Rightarrow> store \<Rightarrow> store" where
  "update_assessments_stats to_metrics run_id assessments_df assessment_names s =
     fold (\<lambda>assessment_name s1.
             let assessment_stats_by_source =
                   compute_assessment_stats_by_source assessments_df assessment_name;
                 s2 = s1\<lparr>calls := calls s1 @ [ComputeAssessmentStats assessment_name]\<rparr>
             in fold (\<lambda>stats. log_batch run_id (to_metrics stats))
                  (map snd assessment_stats_by_source) s2)
       assessment_names s"

section \<open>The evaluation store facade\<close>

text \<open>
  \<^verbatim>\<open>get_evaluation\<close> (lines 330-384). The nested
  \<^verbatim>\<open>_contains_evaluation_artifacts\<close> lists the artifacts once for each conjunct that
  is reached.
\<close>

definition contains_evaluation_artifacts :: "string \<Rightarrow> store \<Rightarrow> bool \<times> store" where
  "contains_evaluation_artifacts run_id s =
     (case list_artifacts run_id s of (files1, s1) \<Rightarrow>
        if \<not> list_ex (\<lambda>path. path = ''_evaluations.json'') files1 then (False, s1)
        else case list_artifacts run_id s1 of (files2, s2) \<Rightarrow>
          if \<not> list_ex (\<lambda>path. path = ''_metrics.json'') files2 then (False, s2)
          else case list_artifacts run_id s2 of (files3, s3) \<Rightarrow>
            (list_ex (\<lambda>path. path = ''_assessments.json'') files3, s3))"

definition get_evaluation :: "string \<Rightarrow> string \<Rightarrow> evaluation_entity action" where
  "get_evaluation run_id evaluation_id s =
     (case contains_evaluation_artifacts run_id s of (found, s0) \<Rightarrow>
        if \<not> found
        then (Inl (MlflowException RunDoesNotContainEvaluations RESOURCE_DOES_NOT_EXIST), s0)
        else
         and_then (download_artifacts run_id ''_evaluations.json'') (\<lambda>evaluations_file.
         and_then (lift (read_evaluations_dataframe evaluations_file)) (\<lambda>evaluations_df.
           let evaluation_row =
                 filter (\<lambda>row. er_evaluation_id row = evaluation_id) evaluations_df
           in if evaluation_row = []
              then lift (Inl (MlflowException (EvaluationIdDoesNotExist evaluation_id run_id)
                                RESOURCE_DOES_NOT_EXIST))
              else
               and_then (download_artifacts run_id ''_metrics.json'') (\<lambda>metrics_file.
               and_then (lift (read_metrics_dataframe metrics_file)) (\<lambda>metrics_df.
               and_then (download_artifacts run_id ''_assessments.json'') (\<lambda>assessments_file.
               and_then (lift (read_assessments_dataframe assessments_file)) (\<lambda>assessments_df.
                 case dataframes_to_evaluations evaluation_row metrics_df assessments_df of
                   [evaluation] \<Rightarrow> lift (Inr evaluation)
                 | evaluations \<Rightarrow>
                     lift (Inl (MlflowException
                                  (ExpectedSingleEvaluation evaluation_id (length evaluations))
                                  INTERNAL_ERROR)))))))) s0)"

text \<open>
  \<^verbatim>\<open>log_evaluations\<close> (lines 95-129). The comprehension of lines 111-114 draws one
  identifier for each evaluation.
\<close>

fun evaluations_to_entities ::
  "string \<Rightarrow> evaluation list \<Rightarrow> store \<Rightarrow> evaluation_entity list \<times> store" where
  "evaluations_to_entities run_id [] s = ([], s)"
| "evaluations_to_entities run_id (evaluation # evaluations) s =
     (case uuid4_hex s of (evaluation_id, s1) \<Rightarrow>
        case evaluations_to_entities run_id evaluations s1 of (entities, s2) \<Rightarrow>
          (evaluation_to_entity run_id evaluation_id evaluation # entities, s2))"

definition log_evaluations ::
  "(assessment_stats \<Rightarrow> metric list) \<Rightarrow> evaluation list \<Rightarrow> string option
     \<Rightarrow> evaluation_entity list action" where
  "log_evaluations to_metrics evaluations run_id s =
     (let run_id = (case run_id of Some r \<Rightarrow> r | None \<Rightarrow> get_or_start_run s)
      in case evaluations_to_entities run_id evaluations s of (evaluation_entities, s0) \<Rightarrow>
         case evaluations_to_dataframes evaluation_entities of
           (evaluations_df, metrics_df, assessments_df) \<Rightarrow>
         and_then (log_table run_id (EvaluationsTable evaluations_df) ''_evaluations.json'') (\<lambda>_.
         and_then (log_table run_id (MetricsTable metrics_df) ''_metrics.json'') (\<lambda>_.
         and_then (log_table run_id (AssessmentsTable assessments_df) ''_assessments.json'') (\<lambda>_.
         (\<lambda>s1. (Inr evaluation_entities,
                 update_assessments_stats to_metrics run_id assessments_df
                   (unique (map ae_name assessments_df)) s1))))) s0)"

text \<open>
  Modelled from the spec: \<^verbatim>\<open>verify_assessments_have_same_value_type\<close> of
  \<^verbatim>\<open>mlflow.evaluation.utils\<close> is not among the sources. By the spec (4.1, 7) it
  requires the assessments supplied together to have, name by name, one value type, and
  fails with an invalid-argument error otherwise; no list is accepted. It reads the
  assessments as objects: a dictionary that reaches it has no such attribute.
\<close>

definition verify_assessments_have_same_value_type ::
  "assessment_arg list option \<Rightarrow> error + unit" where
  "verify_assessments_have_same_value_type assessments' =
     (case assessments' of
        None \<Rightarrow> Inr ()
      | Some xs \<Rightarrow>
          if list_ex is_dict xs then Inl AttributeError
          else if list_all (\<lambda>x. list_all (\<lambda>y.
                     if a_name (the_assessment x) = a_name (the_assessment y)
                     then value_type_of (a_value (the_assessment x))
                            = value_type_of (a_value (the_assessment y))
                     else True) xs) xs
          then Inr ()
          else Inl (MlflowException AssessmentsHaveDifferentValueTypes
                      INVALID_PARAMETER_VALUE))"

text \<open>
  \<^verbatim>\<open>log_evaluation\<close> (lines 31-92). The metrics are given as a mapping or as a list
  of records; a mapping is timed entry by entry.
\<close>

datatype metrics_arg = MetricsDict "(string \<times> real) list" | MetricsList "metric list"

fun metrics_of_items :: "(string \<times> real) list \<Rightarrow> store \<Rightarrow> metric list \<times> store" where
  "metrics_of_items [] s = ([], s)"
| "metrics_of_items ((k, v) # items) s =
     (case time_ms s of (now, s1) \<Rightarrow>
        case metrics_of_items items s1 of (ms, s2) \<Rightarrow>
          (\<lparr>key = k, metric_value = v, timestamp = now, step = 0\<rparr> # ms, s2))"

definition log_evaluation ::
  "(assessment_stats \<Rightarrow> metric list) \<Rightarrow> (string \<times> string) list \<Rightarrow> (string \<times> string) list
     \<Rightarrow> string option \<Rightarrow> string option \<Rightarrow> (string \<times> string) list option
     \<Rightarrow> assessment_arg list option \<Rightarrow> metrics_arg option \<Rightarrow> string option
     \<Rightarrow> evaluation_entity action" where
  "log_evaluation to_metrics inputs' outputs' inputs_id' request_id' targets' assessments'
       metrics' run_id =
     and_then (lift (case assessments' of
                       Some (first # rest) \<Rightarrow>
                         if is_dict first
                         then if \<not> list_all is_dict (first # rest)
                              then Inl (MlflowException AllElementsMustBeDictionaries
                                          INVALID_PARAMETER_VALUE)
                              else Inr (Some (map (\<lambda>assess. AssessmentObj (from_dictionary assess))
                                                (first # rest)))
                         else Inr assessments'
                     | _ \<Rightarrow> Inr assessments')) (\<lambda>assessments'.
     and_then (lift (verify_assessments_have_same_value_type assessments')) (\<lambda>_.
     and_then (\<lambda>s. case metrics' of
                      Some (MetricsDict (item # items)) \<Rightarrow>
                        (case metrics_of_items (item # items) s of
                           (ms, s1) \<Rightarrow> (Inr (Some ms), s1))
                    | Some (MetricsDict []) \<Rightarrow> (Inr (Some []), s)
                    | Some (MetricsList ms) \<Rightarrow> (Inr (Some ms), s)
                    | None \<Rightarrow> (Inr None, s)) (\<lambda>metrics'.
     and_then (log_evaluations to_metrics
                 [\<lparr>inputs = inputs', outputs = outputs', inputs_id = inputs_id',
                   request_id = request_id', targets = targets',
                   assessments = map_option (map the_assessment) assessments',
                   metrics = metrics'\<rparr>] run_id) (\<lambda>logged.
       case logged of
         [] \<Rightarrow> lift (Inl IndexError)
       | evaluation # _ \<Rightarrow> lift (Inr evaluation)))))"

text \<open>
  \<^verbatim>\<open>log_assessments\<close> (lines 198-247). The argument is one assessment or a list of
  them, each as a dictionary or as an object. The names passed to the aggregator are a
  Python set, whose order of iteration is not specified: here they are the names
  without repetition, in the order \<^const>\<open>remdups\<close> leaves them.
\<close>

datatype assessments_arg = Single assessment_arg | Several "assessment_arg list"

definition log_assessments ::
  "(assessment_stats \<Rightarrow> metric list) \<Rightarrow> string \<Rightarrow> assessments_arg \<Rightarrow> string option
     \<Rightarrow> unit action" where
  "log_assessments to_metrics evaluation_id assessments' run_id s =
     (let run_id = (case run_id of Some r \<Rightarrow> r | None \<Rightarrow> get_or_start_run s)
      in
       and_then (get_evaluation run_id evaluation_id) (\<lambda>_.
       and_then (lift (case assessments' of
                         Single (AssessmentDict d) \<Rightarrow> Inr [from_dictionary (AssessmentDict d)]
                       | Several xs \<Rightarrow>
                           if list_ex is_dict xs
                           then if \<not> list_all is_dict xs
                                then Inl (ValueError AllElementsMustBeDictionaries)
                                else Inr (map from_dictionary xs)
                           else Inr (map the_assessment xs)
                       | Single (AssessmentObj a) \<Rightarrow> Inr [a])) (\<lambda>assessments'.
       let assessments' = map (assessment_to_entity evaluation_id) assessments'
       in
       and_then (download_artifacts run_id ''_assessments.json'') (\<lambda>assessments_file.
       and_then (lift (read_assessments_dataframe assessments_file)) (\<lambda>assessments_df.
       and_then (lift (add_assessments_to_df assessments_df assessments' evaluation_id))
         (\<lambda>assessments_df.
       and_then (\<lambda>s1. (Inr (), update_assessments_stats to_metrics run_id assessments_df
                                 (remdups (map ae_name assessments')) s1)) (\<lambda>_.
         log_artifact_helper run_id ''_assessments.json''
           (AssessmentsTable assessments_df))))))) s)"

section \<open>Vocabulary of the properties\<close>

text \<open>
  The invariant of the assessments table: rows of one evaluation and one name have one
  value type.
\<close>

definition same_value_type_per_name :: "assessment_entity list \<Rightarrow> bool" where
  "same_value_type_per_name df \<longleftrightarrow>
     list_all (\<lambda>row. list_all (\<lambda>row'.
        if ae_evaluation_id row = ae_evaluation_id row' \<and> ae_name row = ae_name row'
        then get_value_type row = get_value_type row' else True) df) df"

text \<open>A list that holds a dictionary and an element that is not one.\<close>

definition mixed_forms :: "assessment_arg list \<Rightarrow> bool" where
  "mixed_forms xs \<longleftrightarrow> list_ex is_dict xs \<and> list_ex (\<lambda>x. \<not> is_dict x) xs"

fun mixed_argument :: "assessments_arg \<Rightarrow> bool" where
  "mixed_argument (Single _) = False"
| "mixed_argument (Several xs) = mixed_forms xs"

text \<open>The assessments an argument of \<^verbatim>\<open>log_assessments\<close> holds, in order.\<close>

fun given_assessments :: "assessments_arg \<Rightarrow> assessment list" where
  "given_assessments (Single x) = [the_assessment x]"
| "given_assessments (Several xs) = map the_assessment xs"

text \<open>The run has the three tables among its artifacts.\<close>

definition has_tables :: "store \<Rightarrow> string \<Rightarrow> bool" where
  "has_tables s run_id \<longleftrightarrow>
     ''_evaluations.json'' \<in> fst ` set (artifacts s run_id)
     \<and> ''_metrics.json'' \<in> fst ` set (artifacts s run_id)
     \<and> ''_assessments.json'' \<in> fst ` set (artifacts s run_id)"

text \<open>Calls that read, the names the aggregator was called with, the batches logged.\<close>

fun is_read :: "call \<Rightarrow> bool" where
  "is_read (ListArtifacts _) = True"
| "is_read (DownloadArtifacts _ _) = True"
| "is_read _ = False"

text \<open>The second store is the first after calls that only read.\<close>

definition reads_only :: "store \<Rightarrow> store \<Rightarrow> bool" where
  "reads_only s s' \<longleftrightarrow> (\<exists>cs. s' = s\<lparr>calls := calls s @ cs\<rparr> \<and> list_all is_read cs)"

fun stats_invocations :: "call list \<Rightarrow> string list" where
  "stats_invocations [] = []"
| "stats_invocations (ComputeAssessmentStats n # cs) = n # stats_invocations cs"
| "stats_invocations (_ # cs) = stats_invocations cs"

fun logged_batches :: "call list \<Rightarrow> (string \<times> metric list) list" where
  "logged_batches [] = []"
| "logged_batches (LogBatch run_id ms # cs) = (run_id, ms) # logged_batches cs"
| "logged_batches (_ # cs) = logged_batches cs"

text \<open>
  What one pass of the aggregator over a list of names logs and calls: for each name
  in turn, one batch for each entry of the name's statistics by source.
\<close>

definition stats_batches ::
  "(assessment_stats \<Rightarrow> metric list) \<Rightarrow> string \<Rightarrow> assessment_entity list \<Rightarrow> string list
     \<Rightarrow> (string \<times> metric list) list" where
  "stats_batches to_metrics run_id df names =
     concat (map (\<lambda>n. map (\<lambda>p. (run_id, to_metrics (snd p)))
                         (compute_assessment_stats_by_source df n)) names)"

definition stats_calls ::
  "(assessment_stats \<Rightarrow> metric list) \<Rightarrow> string \<Rightarrow> assessment_entity list \<Rightarrow> string list
     \<Rightarrow> call list" where
  "stats_calls to_metrics run_id df names =
     concat (map (\<lambda>n. ComputeAssessmentStats n #
                       map (\<lambda>p. LogBatch run_id (to_metrics (snd p)))
                         (compute_assessment_stats_by_source df n)) names)"

subsection \<open>Example data\<close>

definition empty_store :: store where
  "empty_store =
     \<lparr>artifacts = (\<lambda>_. []), run_metrics = [], active_run = ''run0'',
      uuids = (\<lambda>n. replicate (Suc n) CHR ''e''), uuids_drawn = 0,
      clock = (\<lambda>n. int n), clock_reads = 0, failing_writes = {}, calls = []\<rparr>"

definition relevant_by_human :: assessment where
  "relevant_by_human =
     \<lparr>a_name = ''relevance'', a_source = AssessmentSource HUMAN ''user1'',
      a_value = BooleanValue True, a_rationale = None, a_metadata = []\<rparr>"

definition relevance_by_code :: assessment where
  "relevance_by_code =
     \<lparr>a_name = ''relevance'', a_source = AssessmentSource CODE ''scorer'',
      a_value = NumericValue 1, a_rationale = None, a_metadata = []\<rparr>"

definition relevance_by_human_numeric :: assessment where
  "relevance_by_human_numeric =
     \<lparr>a_name = ''relevance'', a_source = AssessmentSource HUMAN ''user1'',
      a_value = NumericValue 1, a_rationale = Some ''revised'', a_metadata = []\<rparr>"

definition irrelevant_by_human :: assessment where
  "irrelevant_by_human =
     \<lparr>a_name = ''relevance'', a_source = AssessmentSource HUMAN ''user1'',
      a_value = BooleanValue False, a_rationale = Some ''revised'', a_metadata = []\<rparr>"

definition irrelevant_by_code :: assessment where
  "irrelevant_by_code =
     \<lparr>a_name = ''relevance'', a_source = AssessmentSource CODE ''scorer'',
      a_value = BooleanValue False, a_rationale = None, a_metadata = []\<rparr>"

definition mixed_evaluation :: evaluation where
  "mixed_evaluation =
     \<lparr>inputs = [(''question'', ''q1'')], outputs = [(''answer'', ''a1'')], inputs_id = None,
      request_id = None, targets = None,
      assessments = Some [relevant_by_human, relevance_by_code], metrics = None\<rparr>"

definition one_evaluation_row :: evaluation_row where
  "one_evaluation_row =
     \<lparr>er_evaluation_id = ''e'', er_run_id = ''run1'', er_inputs_id = None,
      er_inputs = [(''question'', ''q1'')], er_outputs = [(''answer'', ''a1'')],
      er_request_id = None, er_targets = None\<rparr>"

text \<open>A run with one evaluation \<^verbatim>\<open>e\<close> and one boolean assessment of it.\<close>

definition logged_store :: store where
  "logged_store =
     empty_store\<lparr>artifacts := (\<lambda>_. [])(''run1'' :=
       [(''_evaluations.json'', EvaluationsTable [one_evaluation_row]),
        (''_metrics.json'', MetricsTable []),
        (''_assessments.json'',
           AssessmentsTable [assessment_to_entity ''e'' relevant_by_human])])\<rparr>"

text \<open>The same run when writing the assessments table fails.\<close>

definition failing_store :: store where
  "failing_store = logged_store\<lparr>failing_writes := {''_assessments.json''}\<rparr>"

text \<open>A \<^verbatim>\<open>to_metrics\<close> that reports the size of the group.\<close>

definition count_metric :: "assessment_stats \<Rightarrow> metric list" where
  "count_metric stats =
     [\<lparr>key = stats_name stats, metric_value = real (length (stats_values stats)),
       timestamp = 0, step = 0\<rparr>]"

text \<open>A run whose evaluations table holds the id \<^verbatim>\<open>e\<close> twice.\<close>

definition corrupted_store :: store where
  "corrupted_store =
     empty_store\<lparr>artifacts := (\<lambda>_. [])(''run1'' :=
       [(''_evaluations.json'', EvaluationsTable [one_evaluation_row, one_evaluation_row]),
        (''_metrics.json'', MetricsTable []),
        (''_assessments.json'', AssessmentsTable [])])\<rparr>"

section \<open>Properties of the merge engine\<close>

lemma fold_list_update_length:
  "length (fold (\<lambda>i df. df[i := v]) is xs) = length xs"
  by (induction "is" arbitrary: xs) simp_all

lemma fold_list_update_nth:
  "j < length xs \<Longrightarrow>
   fold (\<lambda>i df. df[i := v]) is xs ! j = (if j \<in> set is then v else xs ! j)"
  by (induction "is" arbitrary: xs) (auto simp: nth_list_update)

lemma fold_list_update_filter:
  "fold (\<lambda>i df. df[i := v]) (filter (\<lambda>i. P (xs ! i)) [0..<length xs]) xs =
   map (\<lambda>row. if P row then v else row) xs"
  by (rule nth_equalityI) (auto simp: fold_list_update_length fold_list_update_nth)

lemma index_empty_iff:
  "filter (\<lambda>i. P (xs ! i)) [0..<length xs] = [] \<longleftrightarrow> (\<forall>row \<in> set xs. \<not> P row)"
proof
  assume "filter (\<lambda>i. P (xs ! i)) [0..<length xs] = []"
  then have "\<forall>i < length xs. \<not> P (xs ! i)" by (simp add: filter_empty_conv)
  then show "\<forall>row \<in> set xs. \<not> P row" by (auto simp: in_set_conv_nth)
next
  assume "\<forall>row \<in> set xs. \<not> P row"
  then show "filter (\<lambda>i. P (xs ! i)) [0..<length xs] = []"
    by (simp add: filter_empty_conv)
qed

lemma add_assessment_to_df_consistent:
  assumes "\<forall>row \<in> set df. matches_name e a row \<longrightarrow> get_value_type row = get_value_type a"
  shows "add_assessment_to_df df a e =
     Inr (if \<exists>row \<in> set df. matches_name_and_source e a row
          then map (\<lambda>row. if matches_name_and_source e a row
                          then a\<lparr>ae_evaluation_id := e\<rparr> else row) df
          else df @ [a])"
proof -
  have all: "list_all (\<lambda>x. get_value_type a = get_value_type x) (filter (matches_name e a) df)"
    using assms by (auto simp: list_all_iff)
  show ?thesis
    using all
    by (auto simp: add_assessment_to_df_def Let_def fold_list_update_filter index_empty_iff
          append_to_assessments_dataframe_def split: list.splits)
qed

lemma add_assessment_to_df_conflict:
  assumes "row \<in> set df" "matches_name e a row" "get_value_type row \<noteq> get_value_type a"
  shows "\<exists>existing. add_assessment_to_df df a e =
            Inl (MlflowException (ValueTypeDoesNotMatch (ae_name a) (get_value_type a)
                   (get_value_type existing)) INVALID_PARAMETER_VALUE)
          \<and> existing \<in> set df \<and> matches_name e a existing"
proof -
  from assms obtain x xs where x: "filter (matches_name e a) df = x # xs"
    by (cases "filter (matches_name e a) df") (auto simp: filter_empty_conv)
  have nall: "\<not> list_all (\<lambda>x. get_value_type a = get_value_type x) (filter (matches_name e a) df)"
    using assms by (auto simp: list_all_iff)
  have "x \<in> set (filter (matches_name e a) df)" using x by simp
  then have "x \<in> set df" "matches_name e a x" by auto
  moreover have "add_assessment_to_df df a e =
            Inl (MlflowException (ValueTypeDoesNotMatch (ae_name a) (get_value_type a)
                   (get_value_type x)) INVALID_PARAMETER_VALUE)"
    using nall x unfolding add_assessment_to_df_def Let_def by simp
  ultimately show ?thesis by blast
qed

lemma add_assessment_to_df_Inr_consistent:
  assumes "add_assessment_to_df df a e = Inr df'"
  shows "\<forall>row \<in> set df. matches_name e a row \<longrightarrow> get_value_type row = get_value_type a"
proof (rule ccontr)
  assume "\<not> ?thesis"
  then obtain row where "row \<in> set df" "matches_name e a row"
      "get_value_type row \<noteq> get_value_type a" by blast
  from add_assessment_to_df_conflict[OF this] assms show False by auto
qed

lemma matches_self:
  "matches_name_and_source (ae_evaluation_id a) a a" "matches_name (ae_evaluation_id a) a a"
  by (simp_all add: matches_name_and_source_def matches_name_def)

text \<open>
  Claim C3, as amended. When no existing row of the same evaluation and name has another
  value type than the new assessment, the merge succeeds: if rows with the same
  (evaluation_id, name, source) exist, each of them is overwritten where it stands by the
  new assessment's fields with \<^verbatim>\<open>evaluation_id\<close> stamped again, every other row
  is kept, and the row count is unchanged; if no such row exists, the new row is
  appended and the row count grows by exactly one.
\<close>

theorem add_assessment_to_df_upsert:
  assumes "\<forall>row \<in> set df. matches_name e a row \<longrightarrow> get_value_type row = get_value_type a"
  shows "\<exists>df'. add_assessment_to_df df a e = Inr df' \<and>
     (if \<exists>row \<in> set df. matches_name_and_source e a row
      then df' = map (\<lambda>row. if matches_name_and_source e a row
                            then a\<lparr>ae_evaluation_id := e\<rparr> else row) df
           \<and> length df' = length df
      else df' = df @ [a] \<and> length df' = Suc (length df))"
  using add_assessment_to_df_consistent[OF assms] by simp

text \<open>The amended claim C3 at a table of one row, updated by the same human.\<close>

theorem add_assessment_to_df_upsert_witness:
  "get_value_type (assessment_to_entity ''e'' relevant_by_human)
     = get_value_type (assessment_to_entity ''e'' irrelevant_by_human)
   \<and> matches_name_and_source ''e'' (assessment_to_entity ''e'' irrelevant_by_human)
       (assessment_to_entity ''e'' relevant_by_human)
   \<and> add_assessment_to_df [assessment_to_entity ''e'' relevant_by_human]
        (assessment_to_entity ''e'' irrelevant_by_human) ''e''
      = Inr [assessment_to_entity ''e'' irrelevant_by_human]"
  using add_assessment_to_df_upsert[of "[assessment_to_entity ''e'' relevant_by_human]"
          "''e''" "assessment_to_entity ''e'' irrelevant_by_human"]
  by (simp add: assessment_to_entity_def relevant_by_human_def irrelevant_by_human_def
        matches_name_def matches_name_and_source_def get_value_type_def)

text \<open>
  Claim C3 as first stated has no condition on the value type: here a row with the same
  (evaluation_id, name, source) exists, and the merge raises instead of overwriting it.
\<close>

theorem add_assessment_to_df_type_conflict_counterexample:
  "matches_name_and_source ''e'' (assessment_to_entity ''e'' relevance_by_human_numeric)
     (assessment_to_entity ''e'' relevant_by_human)
   \<and> add_assessment_to_df [assessment_to_entity ''e'' relevant_by_human]
        (assessment_to_entity ''e'' relevance_by_human_numeric) ''e''
      = Inl (MlflowException (ValueTypeDoesNotMatch ''relevance'' TNumeric TBoolean)
               INVALID_PARAMETER_VALUE)"
  by (simp add: add_assessment_to_df_def assessment_to_entity_def relevant_by_human_def
        relevance_by_human_numeric_def matches_name_def matches_name_and_source_def
        get_value_type_def)

text \<open>
  Claim C4. The merge is idempotent: when merging an assessment into a table under the
  assessment's own evaluation id succeeds (its value type is consistent with the
  table), merging it again into the result succeeds and gives the same table.
\<close>

theorem add_assessment_to_df_idempotent:
  assumes "add_assessment_to_df df a (ae_evaluation_id a) = Inr df'"
  shows "add_assessment_to_df df' a (ae_evaluation_id a) = Inr df'"
proof -
  let ?e = "ae_evaluation_id a"
  let ?f = "\<lambda>row. if matches_name_and_source ?e a row then a\<lparr>ae_evaluation_id := ?e\<rparr> else row"
  have stamp: "a\<lparr>ae_evaluation_id := ?e\<rparr> = a" by simp
  have cons: "\<forall>row \<in> set df. matches_name ?e a row \<longrightarrow> get_value_type row = get_value_type a"
    using add_assessment_to_df_Inr_consistent[OF assms] .
  have df': "df' = (if \<exists>row \<in> set df. matches_name_and_source ?e a row
                    then map ?f df else df @ [a])"
    using add_assessment_to_df_consistent[OF cons] assms by simp
  have set_df': "set df' \<subseteq> insert a (set df)"
    unfolding df' by (auto simp: stamp)
  have a_in: "a \<in> set df'"
    unfolding df' by (auto simp: stamp image_iff)
  have cons': "\<forall>row \<in> set df'. matches_name ?e a row \<longrightarrow> get_value_type row = get_value_type a"
    using cons set_df' by auto
  have ex': "\<exists>row \<in> set df'. matches_name_and_source ?e a row"
    using a_in matches_self(1) by blast
  have "map ?f df' = df'"
  proof (cases "\<exists>row \<in> set df. matches_name_and_source ?e a row")
    case True
    then have "df' = map ?f df" by (simp add: df')
    moreover have "map ?f (map ?f df) = map ?f df"
      by (simp add: stamp matches_self)
    ultimately show ?thesis by simp
  next
    case False
    then have "df' = df @ [a]" by (simp add: df')
    moreover have "map ?f df = df" using False by (simp add: map_idI)
    ultimately show ?thesis by (simp add: stamp)
  qed
  then show ?thesis
    using add_assessment_to_df_consistent[OF cons'] ex' by simp
qed

text \<open>Claim C4 at a table of one row and an assessment from a new source.\<close>

theorem add_assessment_to_df_idempotent_witness:
  "add_assessment_to_df [assessment_to_entity ''e'' relevant_by_human]
     (assessment_to_entity ''e'' irrelevant_by_code)
     (ae_evaluation_id (assessment_to_entity ''e'' irrelevant_by_code))
   = Inr [assessment_to_entity ''e'' relevant_by_human,
          assessment_to_entity ''e'' irrelevant_by_code]
   \<and> add_assessment_to_df [assessment_to_entity ''e'' relevant_by_human,
          assessment_to_entity ''e'' irrelevant_by_code]
     (assessment_to_entity ''e'' irrelevant_by_code)
     (ae_evaluation_id (assessment_to_entity ''e'' irrelevant_by_code))
   = Inr [assessment_to_entity ''e'' relevant_by_human,
          assessment_to_entity ''e'' irrelevant_by_code]"
proof -
  have first: "add_assessment_to_df [assessment_to_entity ''e'' relevant_by_human]
     (assessment_to_entity ''e'' irrelevant_by_code)
     (ae_evaluation_id (assessment_to_entity ''e'' irrelevant_by_code))
   = Inr [assessment_to_entity ''e'' relevant_by_human,
          assessment_to_entity ''e'' irrelevant_by_code]"
    by (simp add: add_assessment_to_df_def assessment_to_entity_def relevant_by_human_def
        irrelevant_by_code_def matches_name_def matches_name_and_source_def
        get_value_type_def append_to_assessments_dataframe_def)
  from add_assessment_to_df_idempotent[OF first] first show ?thesis by simp
qed

section \<open>Properties of the facade\<close>

subsection \<open>Fetching an evaluation only reads\<close>

lemma reads_only_refl: "reads_only s s"
  unfolding reads_only_def by (rule exI[of _ "[]"]) simp

lemma reads_only_trans:
  assumes "reads_only s s'" "reads_only s' s''"
  shows "reads_only s s''"
proof -
  from assms obtain cs cs' where "s' = s\<lparr>calls := calls s @ cs\<rparr>" "list_all is_read cs"
    "s'' = s'\<lparr>calls := calls s' @ cs'\<rparr>" "list_all is_read cs'"
    unfolding reads_only_def by blast
  then have "s'' = s\<lparr>calls := calls s @ (cs @ cs')\<rparr> \<and> list_all is_read (cs @ cs')"
    by simp
  then show ?thesis unfolding reads_only_def by blast
qed

lemma reads_only_and_then:
  assumes "\<And>s. reads_only s (snd (m s))" "\<And>x s. reads_only s (snd (f x s))"
  shows "reads_only s (snd (and_then m f s))"
proof (cases "m s")
  case (Pair r s')
  with assms(1)[of s] have s': "reads_only s s'" by simp
  show ?thesis
  proof (cases r)
    case (Inl e)
    with Pair s' show ?thesis by (simp add: and_then_def)
  next
    case (Inr x)
    with Pair have "and_then m f s = f x s'" by (simp add: and_then_def)
    with reads_only_trans[OF s' assms(2)[of s' x]] show ?thesis by simp
  qed
qed

lemma reads_only_lift: "reads_only s (snd (lift r s))"
  by (simp add: lift_def reads_only_refl)

lemma reads_only_download: "reads_only s (snd (download_artifacts run_id path s))"
  unfolding reads_only_def download_artifacts_def
  by (rule exI[of _ "[DownloadArtifacts run_id path]"]) simp

lemma reads_only_list: "reads_only s (snd (list_artifacts run_id s))"
  unfolding reads_only_def list_artifacts_def
  by (rule exI[of _ "[ListArtifacts run_id]"]) simp

lemma reads_only_contains: "reads_only s (snd (contains_evaluation_artifacts run_id s))"
proof -
  obtain f1 s1 where l1: "list_artifacts run_id s = (f1, s1)" by (cases "list_artifacts run_id s")
  obtain f2 s2 where l2: "list_artifacts run_id s1 = (f2, s2)" by (cases "list_artifacts run_id s1")
  obtain f3 s3 where l3: "list_artifacts run_id s2 = (f3, s3)" by (cases "list_artifacts run_id s2")
  have r1: "reads_only s s1" using reads_only_list[of s run_id] l1 by simp
  have r2: "reads_only s s2" using reads_only_trans[OF r1] reads_only_list[of s1 run_id] l2 by simp
  have r3: "reads_only s s3" using reads_only_trans[OF r2] reads_only_list[of s2 run_id] l3 by simp
  show ?thesis
    unfolding contains_evaluation_artifacts_def using l1 l2 l3 r1 r2 r3 by simp
qed

lemma get_evaluation_reads_only: "reads_only s (snd (get_evaluation run_id evaluation_id s))"
proof -
  obtain found s0 where c: "contains_evaluation_artifacts run_id s = (found, s0)"
    by (cases "contains_evaluation_artifacts run_id s")
  have r0: "reads_only s s0" using reads_only_contains[of s run_id] c by simp
  show ?thesis
  proof (cases found)
    case False
    with c r0 show ?thesis by (simp add: get_evaluation_def)
  next
    case True
    have "reads_only s0 (snd (get_evaluation run_id evaluation_id s))"
      unfolding get_evaluation_def c using True
      apply simp
      apply (intro reads_only_and_then reads_only_download reads_only_lift)
      apply (simp add: Let_def reads_only_lift split: list.splits)
      apply (intro impI conjI allI reads_only_and_then reads_only_download reads_only_lift)
      apply (simp add: reads_only_lift split: list.splits)
      done
    with r0 show ?thesis by (rule reads_only_trans)
  qed
qed

subsection \<open>The outcomes of fetching an evaluation\<close>

lemma list_ex_path: "list_ex (\<lambda>path. path = p) (map fst al) \<longleftrightarrow> p \<in> fst ` set al"
  by (auto simp: list_ex_iff)

lemma contains_evaluation_artifacts_False:
  "\<not> has_tables s run_id \<Longrightarrow>
   \<exists>cs. contains_evaluation_artifacts run_id s = (False, s\<lparr>calls := calls s @ cs\<rparr>)
        \<and> set cs \<subseteq> {ListArtifacts run_id}"
  unfolding contains_evaluation_artifacts_def list_artifacts_def has_tables_def
  by (auto simp: list_ex_path intro: exI[of _ "[ListArtifacts run_id]"]
        exI[of _ "[ListArtifacts run_id, ListArtifacts run_id]"]
        exI[of _ "[ListArtifacts run_id, ListArtifacts run_id, ListArtifacts run_id]"])

lemma contains_evaluation_artifacts_True:
  "has_tables s run_id \<Longrightarrow>
   contains_evaluation_artifacts run_id s =
     (True, s\<lparr>calls := calls s @ [ListArtifacts run_id, ListArtifacts run_id,
                                  ListArtifacts run_id]\<rparr>)"
  unfolding contains_evaluation_artifacts_def list_artifacts_def has_tables_def
  by (simp add: list_ex_path)

lemma get_evaluation_no_tables:
  assumes "\<not> has_tables s run_id"
  shows "\<exists>cs. get_evaluation run_id evaluation_id s =
           (Inl (MlflowException RunDoesNotContainEvaluations RESOURCE_DOES_NOT_EXIST),
            s\<lparr>calls := calls s @ cs\<rparr>) \<and> set cs \<subseteq> {ListArtifacts run_id}"
proof -
  from contains_evaluation_artifacts_False[OF assms] obtain cs where
    "contains_evaluation_artifacts run_id s = (False, s\<lparr>calls := calls s @ cs\<rparr>)"
    "set cs \<subseteq> {ListArtifacts run_id}" by blast
  then show ?thesis by (auto simp: get_evaluation_def)
qed

lemma get_evaluation_no_row:
  assumes "has_tables s run_id"
    and "map_of (artifacts s run_id) ''_evaluations.json'' = Some (EvaluationsTable evaluations_df)"
    and "filter (\<lambda>row. er_evaluation_id row = evaluation_id) evaluations_df = []"
  shows "get_evaluation run_id evaluation_id s =
           (Inl (MlflowException (EvaluationIdDoesNotExist evaluation_id run_id)
                   RESOURCE_DOES_NOT_EXIST),
            s\<lparr>calls := calls s @ [ListArtifacts run_id, ListArtifacts run_id,
                 ListArtifacts run_id, DownloadArtifacts run_id ''_evaluations.json'']\<rparr>)"
  using assms
  by (simp add: get_evaluation_def contains_evaluation_artifacts_True and_then_def
        download_artifacts_def lift_def read_evaluations_dataframe_def)

lemma get_evaluation_found:
  assumes "has_tables s run_id"
    and "map_of (artifacts s run_id) ''_evaluations.json'' = Some (EvaluationsTable evaluations_df)"
    and "map_of (artifacts s run_id) ''_metrics.json'' = Some (MetricsTable metrics_df)"
    and "map_of (artifacts s run_id) ''_assessments.json'' = Some (AssessmentsTable assessments_df)"
    and "filter (\<lambda>row. er_evaluation_id row = evaluation_id) evaluations_df \<noteq> []"
  shows "get_evaluation run_id evaluation_id s =
           (case dataframes_to_evaluations
                   (filter (\<lambda>row. er_evaluation_id row = evaluation_id) evaluations_df)
                   metrics_df assessments_df of
              [evaluation] \<Rightarrow> Inr evaluation
            | evaluations \<Rightarrow>
                Inl (MlflowException
                       (ExpectedSingleEvaluation evaluation_id (length evaluations))
                       INTERNAL_ERROR),
            s\<lparr>calls := calls s @ [ListArtifacts run_id, ListArtifacts run_id,
                 ListArtifacts run_id, DownloadArtifacts run_id ''_evaluations.json'',
                 DownloadArtifacts run_id ''_metrics.json'',
                 DownloadArtifacts run_id ''_assessments.json'']\<rparr>)"
  using assms
  by (simp add: get_evaluation_def contains_evaluation_artifacts_True and_then_def
        download_artifacts_def lift_def read_evaluations_dataframe_def
        read_metrics_dataframe_def read_assessments_dataframe_def Let_def
      split: list.splits)

text \<open>
  Claim C6. \<^verbatim>\<open>get_evaluation\<close> fails with \<^verbatim>\<open>RESOURCE_DOES_NOT_EXIST\<close> when the
  run lacks one of the three tables, having only listed the artifacts; and it fails with
  \<^verbatim>\<open>RESOURCE_DOES_NOT_EXIST\<close> when the evaluations table has no row of the requested
  id, having listed the artifacts and read the evaluations table only. In both cases the
  metrics and assessments tables are not read and nothing is reconstructed: the store is
  as before but for the record of these reads.
\<close>

theorem get_evaluation_not_found:
  "(\<not> has_tables s run_id \<longrightarrow>
      (\<exists>cs. get_evaluation run_id evaluation_id s =
              (Inl (MlflowException RunDoesNotContainEvaluations RESOURCE_DOES_NOT_EXIST),
               s\<lparr>calls := calls s @ cs\<rparr>)
            \<and> set cs \<subseteq> {ListArtifacts run_id}))
   \<and> (has_tables s run_id
        \<and> map_of (artifacts s run_id) ''_evaluations.json'' = Some (EvaluationsTable evaluations_df)
        \<and> filter (\<lambda>row. er_evaluation_id row = evaluation_id) evaluations_df = [] \<longrightarrow>
      get_evaluation run_id evaluation_id s =
        (Inl (MlflowException (EvaluationIdDoesNotExist evaluation_id run_id)
                RESOURCE_DOES_NOT_EXIST),
         s\<lparr>calls := calls s @ [ListArtifacts run_id, ListArtifacts run_id,
              ListArtifacts run_id, DownloadArtifacts run_id ''_evaluations.json'']\<rparr>))"
  using get_evaluation_no_tables[of s run_id evaluation_id]
    get_evaluation_no_row[of s run_id evaluations_df evaluation_id]
  by blast

text \<open>Claim C6 at a run without tables and at a run without the requested id.\<close>

theorem get_evaluation_not_found_witness:
  "fst (get_evaluation ''run1'' ''e'' empty_store) =
     Inl (MlflowException RunDoesNotContainEvaluations RESOURCE_DOES_NOT_EXIST)
   \<and> artifacts (snd (get_evaluation ''run1'' ''e'' empty_store)) = artifacts empty_store
   \<and> get_evaluation ''run1'' ''f'' logged_store =
        (Inl (MlflowException (EvaluationIdDoesNotExist ''f'' ''run1'') RESOURCE_DOES_NOT_EXIST),
         logged_store\<lparr>calls := [ListArtifacts ''run1'', ListArtifacts ''run1'',
              ListArtifacts ''run1'', DownloadArtifacts ''run1'' ''_evaluations.json'']\<rparr>)"
proof -
  have no: "\<not> has_tables empty_store ''run1''"
    by (simp add: has_tables_def empty_store_def)
  have yes: "has_tables logged_store ''run1''"
    by (simp add: has_tables_def logged_store_def empty_store_def)
  have tbl: "map_of (artifacts logged_store ''run1'') ''_evaluations.json''
               = Some (EvaluationsTable [one_evaluation_row])"
    by (simp add: logged_store_def empty_store_def)
  have row: "filter (\<lambda>row. er_evaluation_id row = ''f'') [one_evaluation_row] = []"
    by (simp add: one_evaluation_row_def)
  have c: "calls logged_store = []" by (simp add: logged_store_def empty_store_def)
  from get_evaluation_not_found[of empty_store "''run1''" "''e''"] no
  have "\<exists>cs. get_evaluation ''run1'' ''e'' empty_store =
              (Inl (MlflowException RunDoesNotContainEvaluations RESOURCE_DOES_NOT_EXIST),
               empty_store\<lparr>calls := calls empty_store @ cs\<rparr>)" by blast
  then have first: "fst (get_evaluation ''run1'' ''e'' empty_store) =
     Inl (MlflowException RunDoesNotContainEvaluations RESOURCE_DOES_NOT_EXIST)
   \<and> artifacts (snd (get_evaluation ''run1'' ''e'' empty_store)) = artifacts empty_store"
    by auto
  from get_evaluation_not_found[of logged_store "''run1''" "''f''" "[one_evaluation_row]"]
    yes tbl row c
  have "get_evaluation ''run1'' ''f'' logged_store =
        (Inl (MlflowException (EvaluationIdDoesNotExist ''f'' ''run1'') RESOURCE_DOES_NOT_EXIST),
         logged_store\<lparr>calls := [ListArtifacts ''run1'', ListArtifacts ''run1'',
              ListArtifacts ''run1'', DownloadArtifacts ''run1'' ''_evaluations.json'']\<rparr>)"
    by simp
  with first show ?thesis by simp
qed

text \<open>
  Claim C8. When the run has the three tables and the evaluations table has a row of the
  requested id, \<^verbatim>\<open>get_evaluation\<close> reconstructs from the matching rows; if the
  reconstruction does not yield exactly one evaluation it fails with
  \<^verbatim>\<open>INTERNAL_ERROR\<close>, the message carrying the number found, and otherwise it
  returns the one evaluation.
\<close>

theorem get_evaluation_single_record:
  assumes "has_tables s run_id"
    and "map_of (artifacts s run_id) ''_evaluations.json'' = Some (EvaluationsTable evaluations_df)"
    and "map_of (artifacts s run_id) ''_metrics.json'' = Some (MetricsTable metrics_df)"
    and "map_of (artifacts s run_id) ''_assessments.json'' = Some (AssessmentsTable assessments_df)"
    and "evaluation_row = filter (\<lambda>row. er_evaluation_id row = evaluation_id) evaluations_df"
    and "evaluation_row \<noteq> []"
    and "evaluations = dataframes_to_evaluations evaluation_row metrics_df assessments_df"
  shows "fst (get_evaluation run_id evaluation_id s) =
           (if length evaluations \<noteq> 1
            then Inl (MlflowException
                        (ExpectedSingleEvaluation evaluation_id (length evaluations))
                        INTERNAL_ERROR)
            else Inr (hd evaluations))"
proof -
  have "fst (get_evaluation run_id evaluation_id s) =
          (case evaluations of
              [evaluation] \<Rightarrow> Inr evaluation
            | _ \<Rightarrow> Inl (MlflowException
                       (ExpectedSingleEvaluation evaluation_id (length evaluations))
                       INTERNAL_ERROR))"
    using get_evaluation_found[OF assms(1-4), of evaluation_id] assms(5-7)
    by (simp split: list.splits)
  then show ?thesis by (simp split: list.splits)
qed

text \<open>
  Claim C8 at a run whose evaluations table holds the id twice, and at a run that holds
  it once.
\<close>

theorem get_evaluation_single_record_witness:
  "fst (get_evaluation ''run1'' ''e'' corrupted_store) =
     Inl (MlflowException (ExpectedSingleEvaluation ''e'' 2) INTERNAL_ERROR)
   \<and> fst (get_evaluation ''run1'' ''e'' logged_store) =
     Inr \<lparr>ee_evaluation_id = ''e'', ee_run_id = ''run1'', ee_inputs_id = None,
          ee_inputs = [(''question'', ''q1'')], ee_outputs = [(''answer'', ''a1'')],
          ee_request_id = None, ee_targets = None,
          ee_assessments = [assessment_to_entity ''e'' relevant_by_human],
          ee_metrics = []\<rparr>"
proof -
  have "fst (get_evaluation ''run1'' ''e'' corrupted_store) =
     Inl (MlflowException (ExpectedSingleEvaluation ''e'' 2) INTERNAL_ERROR)"
    using get_evaluation_single_record[of corrupted_store "''run1''"
        "[one_evaluation_row, one_evaluation_row]" "[]" "[]"
        "[one_evaluation_row, one_evaluation_row]" "''e''"
        "dataframes_to_evaluations [one_evaluation_row, one_evaluation_row] [] []"]
    by (simp add: has_tables_def corrupted_store_def empty_store_def one_evaluation_row_def
          dataframes_to_evaluations_def)
  moreover have "fst (get_evaluation ''run1'' ''e'' logged_store) =
     Inr \<lparr>ee_evaluation_id = ''e'', ee_run_id = ''run1'', ee_inputs_id = None,
          ee_inputs = [(''question'', ''q1'')], ee_outputs = [(''answer'', ''a1'')],
          ee_request_id = None, ee_targets = None,
          ee_assessments = [assessment_to_entity ''e'' relevant_by_human],
          ee_metrics = []\<rparr>"
    using get_evaluation_single_record[of logged_store "''run1''"
        "[one_evaluation_row]" "[]" "[assessment_to_entity ''e'' relevant_by_human]"
        "[one_evaluation_row]" "''e''"
        "dataframes_to_evaluations [one_evaluation_row] []
           [assessment_to_entity ''e'' relevant_by_human]"]
    by (simp add: has_tables_def logged_store_def empty_store_def one_evaluation_row_def
          dataframes_to_evaluations_def assessment_to_entity_def)
  ultimately show ?thesis by simp
qed

subsection \<open>The stats aggregator's effect\<close>

lemma fold_log_batch:
  "fold (\<lambda>stats. log_batch run_id (to_metrics stats)) sts s =
     s\<lparr>run_metrics := run_metrics s @ map (\<lambda>stats. (run_id, to_metrics stats)) sts,
       calls := calls s @ map (\<lambda>stats. LogBatch run_id (to_metrics stats)) sts\<rparr>"
  by (induction sts arbitrary: s) (simp_all add: log_batch_def)

lemma update_assessments_stats_eq:
  "update_assessments_stats to_metrics run_id df names s =
     s\<lparr>run_metrics := run_metrics s @ stats_batches to_metrics run_id df names,
       calls := calls s @ stats_calls to_metrics run_id df names\<rparr>"
proof -
  have "fold (\<lambda>assessment_name s1.
             let assessment_stats_by_source =
                   compute_assessment_stats_by_source df assessment_name;
                 s2 = s1\<lparr>calls := calls s1 @ [ComputeAssessmentStats assessment_name]\<rparr>
             in fold (\<lambda>stats. log_batch run_id (to_metrics stats))
                  (map snd assessment_stats_by_source) s2) names s =
     s\<lparr>run_metrics := run_metrics s @ stats_batches to_metrics run_id df names,
       calls := calls s @ stats_calls to_metrics run_id df names\<rparr>"
    by (induction names arbitrary: s)
       (simp_all add: stats_batches_def stats_calls_def fold_log_batch Let_def comp_def)
  then show ?thesis by (simp add: update_assessments_stats_def)
qed

subsection \<open>Logging assessments, step by step\<close>

lemma from_dictionary_eq: "from_dictionary x = the_assessment x"
  by (cases x) simp_all

lemma mixed_forms_iff:
  "mixed_forms xs \<longleftrightarrow> list_ex is_dict xs \<and> \<not> list_all is_dict xs"
  by (auto simp: mixed_forms_def list_ex_iff list_all_iff)

lemma get_evaluation_keeps:
  assumes "get_evaluation run_id e s = (r, s1)"
  shows "artifacts s1 = artifacts s" "run_metrics s1 = run_metrics s"
    "failing_writes s1 = failing_writes s" "prefix (calls s) (calls s1)"
proof -
  from get_evaluation_reads_only[of s run_id e] assms
  obtain cs where "s1 = s\<lparr>calls := calls s @ cs\<rparr>" by (auto simp: reads_only_def)
  then show "artifacts s1 = artifacts s" "run_metrics s1 = run_metrics s"
    "failing_writes s1 = failing_writes s" "prefix (calls s) (calls s1)" by simp_all
qed

lemma log_assessments_fetch_fails:
  assumes "get_evaluation run_id e s = (Inl err, s1)"
    and "run_id = (case rid of Some r \<Rightarrow> r | None \<Rightarrow> get_or_start_run s)"
  shows "log_assessments to_metrics e arg rid s = (Inl err, s1)"
  using assms by (simp add: log_assessments_def and_then_def)

lemma log_assessments_after_fetch:
  assumes ge: "get_evaluation run_id e s = (Inr ev, s1)"
    and run: "run_id = (case rid of Some r \<Rightarrow> r | None \<Rightarrow> get_or_start_run s)"
  shows "log_assessments to_metrics e arg rid s =
     (if mixed_argument arg then (Inl (ValueError AllElementsMustBeDictionaries), s1)
      else case map_of (artifacts s run_id) ''_assessments.json'' of
         None \<Rightarrow> (Inl (MlflowException (ArtifactDoesNotExist ''_assessments.json'')
                         RESOURCE_DOES_NOT_EXIST),
                  s1\<lparr>calls := calls s1 @ [DownloadArtifacts run_id ''_assessments.json'']\<rparr>)
       | Some file \<Rightarrow>
          (case read_assessments_dataframe file of
             Inl err \<Rightarrow>
               (Inl err, s1\<lparr>calls := calls s1 @ [DownloadArtifacts run_id ''_assessments.json'']\<rparr>)
           | Inr df \<Rightarrow>
              (case add_assessments_to_df df
                      (map (assessment_to_entity e) (given_assessments arg)) e of
                 Inl err \<Rightarrow>
                   (Inl err,
                    s1\<lparr>calls := calls s1 @ [DownloadArtifacts run_id ''_assessments.json'']\<rparr>)
               | Inr df' \<Rightarrow>
                   log_artifact_helper run_id ''_assessments.json'' (AssessmentsTable df')
                     (update_assessments_stats to_metrics run_id df'
                        (remdups (map a_name (given_assessments arg)))
                        (s1\<lparr>calls := calls s1 @
                               [DownloadArtifacts run_id ''_assessments.json'']\<rparr>)))))"
proof -
  have art: "artifacts s1 = artifacts s" using get_evaluation_keeps(1)[OF ge] .
  have names: "ae_name \<circ> assessment_to_entity e = a_name"
    by (simp add: fun_eq_iff assessment_to_entity_def)
  have norm: "(case arg of
                 Single (AssessmentDict d) \<Rightarrow> Inr [from_dictionary (AssessmentDict d)]
               | Single (AssessmentObj a) \<Rightarrow> Inr [a]
               | Several xs \<Rightarrow>
                   if list_ex is_dict xs
                   then if \<not> list_all is_dict xs
                        then Inl (ValueError AllElementsMustBeDictionaries)
                        else Inr (map from_dictionary xs)
                   else Inr (map the_assessment xs)) =
              (if mixed_argument arg then Inl (ValueError AllElementsMustBeDictionaries)
               else Inr (given_assessments arg))"
    by (auto simp: mixed_forms_iff from_dictionary_eq
          split: assessments_arg.splits assessment_arg.splits)
  show ?thesis
    unfolding log_assessments_def Let_def run[symmetric] norm
    using ge art
    by (simp add: and_then_def lift_def download_artifacts_def names
          split: option.splits sum.splits)
qed

lemma log_artifact_helper_ok:
  "artifact_file \<notin> failing_writes s \<Longrightarrow>
   log_artifact_helper run_id artifact_file data s =
     (Inr (), s\<lparr>artifacts := (artifacts s)
                  (run_id := AList.update artifact_file data (artifacts s run_id)),
               calls := calls s @ [LogArtifact run_id artifact_file]\<rparr>)"
  by (simp add: log_artifact_helper_def)

lemma log_artifact_helper_fails:
  "artifact_file \<in> failing_writes s \<Longrightarrow>
   log_artifact_helper run_id artifact_file data s =
     (Inl (WriteFailed artifact_file),
      s\<lparr>calls := calls s @ [LogArtifact run_id artifact_file]\<rparr>)"
  by (simp add: log_artifact_helper_def)

lemma log_assessments_success:
  assumes ok: "fst (log_assessments to_metrics e arg rid s) = Inr ()"
    and run: "run_id = (case rid of Some r \<Rightarrow> r | None \<Rightarrow> get_or_start_run s)"
  shows "\<exists>df df' reads.
      map_of (artifacts s run_id) ''_assessments.json'' = Some (AssessmentsTable df)
    \<and> add_assessments_to_df df (map (assessment_to_entity e) (given_assessments arg)) e
        = Inr df'
    \<and> list_all is_read reads
    \<and> snd (log_assessments to_metrics e arg rid s) =
        s\<lparr>artifacts := (artifacts s)
              (run_id := AList.update ''_assessments.json'' (AssessmentsTable df')
                           (artifacts s run_id)),
          run_metrics := run_metrics s @
             stats_batches to_metrics run_id df' (remdups (map a_name (given_assessments arg))),
          calls := calls s @ reads @
             stats_calls to_metrics run_id df' (remdups (map a_name (given_assessments arg)))
             @ [LogArtifact run_id ''_assessments.json'']\<rparr>"
proof -
  let ?path = "''_assessments.json''"
  let ?names = "remdups (map a_name (given_assessments arg))"
  obtain r s1 where ge: "get_evaluation run_id e s = (r, s1)"
    by (cases "get_evaluation run_id e s")
  obtain ev where r: "r = Inr ev"
    using ok log_assessments_fetch_fails[OF _ run, of e _ s1 to_metrics arg] ge
    by (cases r) auto
  from get_evaluation_reads_only[of s run_id e] ge
  obtain cs where s1: "s1 = s\<lparr>calls := calls s @ cs\<rparr>" and cs: "list_all is_read cs"
    by (auto simp: reads_only_def)
  note X = log_assessments_after_fetch[OF ge[unfolded r] run, of to_metrics arg]
  have nm: "\<not> mixed_argument arg" using ok X by (auto split: if_splits)
  obtain stored where fl: "map_of (artifacts s run_id) ?path = Some stored"
    using ok X nm by (cases "map_of (artifacts s run_id) ?path") auto
  obtain df where df: "read_assessments_dataframe stored = Inr df"
    using ok X nm fl by (cases "read_assessments_dataframe stored") auto
  then have file_eq: "stored = AssessmentsTable df"
    by (auto simp: read_assessments_dataframe_def split: artifact.splits)
  obtain df' where df': "add_assessments_to_df df
        (map (assessment_to_entity e) (given_assessments arg)) e = Inr df'"
    using ok X nm fl df
    by (cases "add_assessments_to_df df
        (map (assessment_to_entity e) (given_assessments arg)) e") auto
  let ?s2 = "update_assessments_stats to_metrics run_id df' ?names
               (s1\<lparr>calls := calls s1 @ [DownloadArtifacts run_id ?path]\<rparr>)"
  have Y: "log_assessments to_metrics e arg rid s =
             log_artifact_helper run_id ?path (AssessmentsTable df') ?s2"
    using X nm fl df df' by simp
  have nf: "?path \<notin> failing_writes ?s2"
  proof
    assume "?path \<in> failing_writes ?s2"
    from log_artifact_helper_fails[OF this] Y ok show False by simp
  qed
  have "snd (log_assessments to_metrics e arg rid s) =
        s\<lparr>artifacts := (artifacts s)
              (run_id := AList.update ?path (AssessmentsTable df') (artifacts s run_id)),
          run_metrics := run_metrics s @ stats_batches to_metrics run_id df' ?names,
          calls := calls s @ (cs @ [DownloadArtifacts run_id ?path]) @
             stats_calls to_metrics run_id df' ?names @ [LogArtifact run_id ?path]\<rparr>"
    unfolding Y log_artifact_helper_ok[OF nf]
    by (simp add: update_assessments_stats_eq s1)
  moreover have "list_all is_read (cs @ [DownloadArtifacts run_id ?path])"
    using cs by simp
  ultimately show ?thesis using fl file_eq df' by blast
qed

lemma log_assessments_write_fails:
  assumes ge: "fst (get_evaluation run_id e s) = Inr ev"
    and run: "run_id = (case rid of Some r \<Rightarrow> r | None \<Rightarrow> get_or_start_run s)"
    and nm: "\<not> mixed_argument arg"
    and tbl: "map_of (artifacts s run_id) ''_assessments.json'' = Some (AssessmentsTable df)"
    and merge: "add_assessments_to_df df
                  (map (assessment_to_entity e) (given_assessments arg)) e = Inr df'"
    and fails: "''_assessments.json'' \<in> failing_writes s"
  shows "fst (log_assessments to_metrics e arg rid s) = Inl (WriteFailed ''_assessments.json'')"
    and "run_metrics (snd (log_assessments to_metrics e arg rid s)) =
           run_metrics s @
           stats_batches to_metrics run_id df' (remdups (map a_name (given_assessments arg)))"
    and "artifacts (snd (log_assessments to_metrics e arg rid s)) = artifacts s"
proof -
  obtain s1 where ge': "get_evaluation run_id e s = (Inr ev, s1)"
    using ge by (cases "get_evaluation run_id e s") auto
  from get_evaluation_reads_only[of s run_id e] ge'
  obtain cs where s1: "s1 = s\<lparr>calls := calls s @ cs\<rparr>"
    by (auto simp: reads_only_def)
  let ?s2 = "update_assessments_stats to_metrics run_id df'
               (remdups (map a_name (given_assessments arg)))
               (s1\<lparr>calls := calls s1 @ [DownloadArtifacts run_id ''_assessments.json'']\<rparr>)"
  have Y: "log_assessments to_metrics e arg rid s =
             log_artifact_helper run_id ''_assessments.json'' (AssessmentsTable df') ?s2"
    using log_assessments_after_fetch[OF ge' run, of to_metrics arg] nm tbl merge
    by (simp add: read_assessments_dataframe_def)
  have f: "''_assessments.json'' \<in> failing_writes ?s2"
    using fails by (simp add: update_assessments_stats_eq s1)
  show "fst (log_assessments to_metrics e arg rid s) = Inl (WriteFailed ''_assessments.json'')"
    unfolding Y log_artifact_helper_fails[OF f] by simp
  show "run_metrics (snd (log_assessments to_metrics e arg rid s)) =
           run_metrics s @
           stats_batches to_metrics run_id df' (remdups (map a_name (given_assessments arg)))"
    unfolding Y log_artifact_helper_fails[OF f] by (simp add: update_assessments_stats_eq s1)
  show "artifacts (snd (log_assessments to_metrics e arg rid s)) = artifacts s"
    unfolding Y log_artifact_helper_fails[OF f] by (simp add: update_assessments_stats_eq s1)
qed

lemma log_assessments_merge_fails:
  assumes ge: "fst (get_evaluation run_id e s) = Inr ev"
    and run: "run_id = (case rid of Some r \<Rightarrow> r | None \<Rightarrow> get_or_start_run s)"
    and nm: "\<not> mixed_argument arg"
    and tbl: "map_of (artifacts s run_id) ''_assessments.json'' = Some (AssessmentsTable df)"
    and merge: "add_assessments_to_df df
                  (map (assessment_to_entity e) (given_assessments arg)) e = Inl err"
  shows "\<exists>s'. log_assessments to_metrics e arg rid s = (Inl err, s')
            \<and> artifacts s' = artifacts s \<and> run_metrics s' = run_metrics s"
proof -
  obtain s1 where ge': "get_evaluation run_id e s = (Inr ev, s1)"
    using ge by (cases "get_evaluation run_id e s") auto
  from get_evaluation_reads_only[of s run_id e] ge'
  obtain cs where s1: "s1 = s\<lparr>calls := calls s @ cs\<rparr>"
    by (auto simp: reads_only_def)
  show ?thesis
    using log_assessments_after_fetch[OF ge' run, of to_metrics arg] nm tbl merge
    by (simp add: read_assessments_dataframe_def s1)
qed

subsection \<open>The invariant under a merge\<close>

lemma same_value_type_per_name_iff:
  "same_value_type_per_name df \<longleftrightarrow>
     (\<forall>row \<in> set df. \<forall>row' \<in> set df.
        ae_evaluation_id row = ae_evaluation_id row' \<and> ae_name row = ae_name row'
        \<longrightarrow> get_value_type row = get_value_type row')"
  by (auto simp: same_value_type_per_name_def list_all_iff)

lemma conflict_names_types:
  assumes inv: "same_value_type_per_name df"
    and row: "row \<in> set df" "matches_name (ae_evaluation_id a) a row"
             "get_value_type row \<noteq> get_value_type a"
  shows "\<exists>t. add_assessment_to_df df a (ae_evaluation_id a) =
                    Inl (MlflowException
                           (ValueTypeDoesNotMatch (ae_name a) (get_value_type a) t)
                           INVALID_PARAMETER_VALUE)
                \<and> t \<noteq> get_value_type a
                \<and> (\<forall>row \<in> set df. matches_name (ae_evaluation_id a) a row
                       \<longrightarrow> get_value_type row = t)"
proof -
  let ?e = "ae_evaluation_id a"
  from add_assessment_to_df_conflict[OF row] obtain existing where
    both: "add_assessment_to_df df a ?e =
            Inl (MlflowException (ValueTypeDoesNotMatch (ae_name a) (get_value_type a)
                   (get_value_type existing)) INVALID_PARAMETER_VALUE)
          \<and> existing \<in> set df \<and> matches_name ?e a existing" ..
  from both have err: "add_assessment_to_df df a ?e =
            Inl (MlflowException (ValueTypeDoesNotMatch (ae_name a) (get_value_type a)
                   (get_value_type existing)) INVALID_PARAMETER_VALUE)" by (rule conjunct1)
  from both have ex1: "existing \<in> set df" by (elim conjE)
  from both have ex2: "matches_name ?e a existing" by (elim conjE)
  let ?t = "get_value_type existing"
  have all_t: "\<forall>r \<in> set df. matches_name ?e a r \<longrightarrow> get_value_type r = ?t"
  proof (intro ballI impI)
    fix r assume r: "r \<in> set df" "matches_name ?e a r"
    from r(2) ex2 have "ae_evaluation_id r = ae_evaluation_id existing \<and> ae_name r = ae_name existing"
      by (simp add: matches_name_def)
    with inv r(1) ex1 show "get_value_type r = ?t"
      unfolding same_value_type_per_name_iff by blast
  qed
  then have ne: "?t \<noteq> get_value_type a" using row by auto
  from err ne all_t show ?thesis by blast
qed


lemma merge_keeps_invariant:
  assumes inv: "same_value_type_per_name df"
    and cons: "\<forall>row \<in> set df. matches_name (ae_evaluation_id a) a row
                 \<longrightarrow> get_value_type row = get_value_type a"
    and sub: "set df' \<subseteq> insert a (set df)"
  shows "same_value_type_per_name df'"
  unfolding same_value_type_per_name_iff
proof (intro ballI impI)
  fix row row'
  assume in1: "row \<in> set df'" and in2: "row' \<in> set df'"
    and same: "ae_evaluation_id row = ae_evaluation_id row' \<and> ae_name row = ae_name row'"
  from in1 sub have c1: "row = a \<or> row \<in> set df" by auto
  from in2 sub have c2: "row' = a \<or> row' \<in> set df" by auto
  from c1 c2 show "get_value_type row = get_value_type row'"
  proof (elim disjE)
    assume "row = a" "row' = a" then show ?thesis by simp
  next
    assume "row = a" "row' \<in> set df"
    with cons same show ?thesis by (auto simp: matches_name_def)
  next
    assume "row \<in> set df" "row' = a"
    with cons same show ?thesis by (auto simp: matches_name_def)
  next
    assume "row \<in> set df" "row' \<in> set df"
    with inv same show ?thesis unfolding same_value_type_per_name_iff by blast
  qed
qed

lemma conflict_reaches_caller:
  assumes err: "add_assessment_to_df df a (ae_evaluation_id a) = Inl e0"
    and a: "a = assessment_to_entity (ae_evaluation_id a) a0"
    and run: "run_id = (case rid of Some r \<Rightarrow> r | None \<Rightarrow> get_or_start_run s)"
    and ge: "fst (get_evaluation run_id (ae_evaluation_id a) s) = Inr ev"
    and tbl: "map_of (artifacts s run_id) ''_assessments.json'' = Some (AssessmentsTable df)"
  shows "\<exists>s'. log_assessments to_metrics (ae_evaluation_id a)
                 (Single (AssessmentObj a0)) rid s = (Inl e0, s')
              \<and> artifacts s' = artifacts s \<and> run_metrics s' = run_metrics s"
proof -
  have "add_assessments_to_df df
          (map (assessment_to_entity (ae_evaluation_id a))
             (given_assessments (Single (AssessmentObj a0)))) (ae_evaluation_id a)
        = Inl e0"
    using err a[symmetric] by simp
  from log_assessments_merge_fails[OF ge run _ tbl this, of to_metrics]
  show ?thesis by simp
qed

text \<open>
  Claim C2. Let the rows of the table have, evaluation by evaluation and name by name, one
  value type, and let a new assessment be merged under its own evaluation id. If a row
  of its evaluation and name has another value type, the merge fails with
  \<^verbatim>\<open>INVALID_PARAMETER_VALUE\<close>; the message names the new assessment's type and the
  type of the existing rows of that name, and the two differ; and \<^verbatim>\<open>log_assessments\<close>,
  called with that assessment on a run where the evaluation is found and this table is
  the persisted one, fails with the same error and leaves the run's artifacts, so the
  persisted table, and its logged metrics as they were. Otherwise the merge succeeds
  and the resulting table has the invariant again.
\<close>

theorem add_assessment_to_df_value_types:
  assumes inv: "same_value_type_per_name df"
  shows "if \<exists>row \<in> set df. matches_name (ae_evaluation_id a) a row
                          \<and> get_value_type row \<noteq> get_value_type a
         then \<exists>t. add_assessment_to_df df a (ae_evaluation_id a) =
                    Inl (MlflowException
                           (ValueTypeDoesNotMatch (ae_name a) (get_value_type a) t)
                           INVALID_PARAMETER_VALUE)
                \<and> t \<noteq> get_value_type a
                \<and> (\<forall>row \<in> set df. matches_name (ae_evaluation_id a) a row
                       \<longrightarrow> get_value_type row = t)
                \<and> (\<forall>to_metrics given rid s run_id ev.
                      a = assessment_to_entity (ae_evaluation_id a) given
                      \<and> run_id = (case rid of Some r \<Rightarrow> r | None \<Rightarrow> get_or_start_run s)
                      \<and> fst (get_evaluation run_id (ae_evaluation_id a) s) = Inr ev
                      \<and> map_of (artifacts s run_id) ''_assessments.json''
                          = Some (AssessmentsTable df)
                      \<longrightarrow> (\<exists>s'. log_assessments to_metrics (ae_evaluation_id a)
                                   (Single (AssessmentObj given)) rid s =
                                 (Inl (MlflowException
                                         (ValueTypeDoesNotMatch (ae_name a) (get_value_type a) t)
                                         INVALID_PARAMETER_VALUE), s')
                               \<and> artifacts s' = artifacts s
                               \<and> run_metrics s' = run_metrics s))
         else \<exists>df'. add_assessment_to_df df a (ae_evaluation_id a) = Inr df'
                  \<and> same_value_type_per_name df'"
proof (cases "\<exists>row \<in> set df. matches_name (ae_evaluation_id a) a row
                          \<and> get_value_type row \<noteq> get_value_type a")
  case True
  let ?e = "ae_evaluation_id a"
  from True obtain row where row: "row \<in> set df" "matches_name ?e a row"
    "get_value_type row \<noteq> get_value_type a" by blast
  from conflict_names_types[OF inv row] obtain t where
    t: "add_assessment_to_df df a ?e =
          Inl (MlflowException (ValueTypeDoesNotMatch (ae_name a) (get_value_type a) t)
                 INVALID_PARAMETER_VALUE)
        \<and> t \<noteq> get_value_type a
        \<and> (\<forall>row \<in> set df. matches_name ?e a row \<longrightarrow> get_value_type row = t)"
    ..
  from t have err: "add_assessment_to_df df a ?e =
          Inl (MlflowException (ValueTypeDoesNotMatch (ae_name a) (get_value_type a) t)
                 INVALID_PARAMETER_VALUE)" by (rule conjunct1)
  have facade: "\<forall>to_metrics given rid s run_id ev.
                      a = assessment_to_entity ?e given
                      \<and> run_id = (case rid of Some r \<Rightarrow> r | None \<Rightarrow> get_or_start_run s)
                      \<and> fst (get_evaluation run_id ?e s) = Inr ev
                      \<and> map_of (artifacts s run_id) ''_assessments.json''
                          = Some (AssessmentsTable df)
                      \<longrightarrow> (\<exists>s'. log_assessments to_metrics ?e
                                   (Single (AssessmentObj given)) rid s =
                                 (Inl (MlflowException
                                         (ValueTypeDoesNotMatch (ae_name a) (get_value_type a) t)
                                         INVALID_PARAMETER_VALUE), s')
                               \<and> artifacts s' = artifacts s
                               \<and> run_metrics s' = run_metrics s)"
  proof (intro allI impI, elim conjE)
    fix to_metrics given rid s run_id ev
    assume "a = assessment_to_entity ?e given"
      "run_id = (case rid of Some r \<Rightarrow> r | None \<Rightarrow> get_or_start_run s)"
      "fst (get_evaluation run_id ?e s) = Inr ev"
      "map_of (artifacts s run_id) ''_assessments.json'' = Some (AssessmentsTable df)"
    from conflict_reaches_caller[OF err this]
    show "\<exists>s'. log_assessments to_metrics ?e (Single (AssessmentObj given)) rid s =
                  (Inl (MlflowException
                         (ValueTypeDoesNotMatch (ae_name a) (get_value_type a) t)
                         INVALID_PARAMETER_VALUE), s')
               \<and> artifacts s' = artifacts s \<and> run_metrics s' = run_metrics s" .
  qed
  from t facade have "\<exists>t. add_assessment_to_df df a ?e =
                    Inl (MlflowException
                           (ValueTypeDoesNotMatch (ae_name a) (get_value_type a) t)
                           INVALID_PARAMETER_VALUE)
                \<and> t \<noteq> get_value_type a
                \<and> (\<forall>row \<in> set df. matches_name ?e a row \<longrightarrow> get_value_type row = t)
                \<and> (\<forall>to_metrics given rid s run_id ev.
                      a = assessment_to_entity ?e given
                      \<and> run_id = (case rid of Some r \<Rightarrow> r | None \<Rightarrow> get_or_start_run s)
                      \<and> fst (get_evaluation run_id ?e s) = Inr ev
                      \<and> map_of (artifacts s run_id) ''_assessments.json''
                          = Some (AssessmentsTable df)
                      \<longrightarrow> (\<exists>s'. log_assessments to_metrics ?e
                                   (Single (AssessmentObj given)) rid s =
                                 (Inl (MlflowException
                                         (ValueTypeDoesNotMatch (ae_name a) (get_value_type a) t)
                                         INVALID_PARAMETER_VALUE), s')
                               \<and> artifacts s' = artifacts s
                               \<and> run_metrics s' = run_metrics s))"
    by (intro exI[of _ t] conjI) (elim conjE, assumption)+
  with True show ?thesis by (simp only: if_True)
next
  case False
  let ?e = "ae_evaluation_id a"
  from False have cons: "\<forall>row \<in> set df. matches_name ?e a row
                 \<longrightarrow> get_value_type row = get_value_type a" by blast
  let ?df' = "if \<exists>row \<in> set df. matches_name_and_source ?e a row
          then map (\<lambda>row. if matches_name_and_source ?e a row
                          then a\<lparr>ae_evaluation_id := ?e\<rparr> else row) df
          else df @ [a]"
  have eq: "add_assessment_to_df df a ?e = Inr ?df'"
    using add_assessment_to_df_consistent[OF cons] .
  have "set ?df' \<subseteq> insert a (set df)" by auto
  from merge_keeps_invariant[OF inv cons this] eq
  have "\<exists>df'. add_assessment_to_df df a ?e = Inr df' \<and> same_value_type_per_name df'"
    by (intro exI[of _ ?df'] conjI)
  with False show ?thesis by (simp only: if_False)
qed


text \<open>
  Claim C2 at a table with one boolean assessment: a numeric one of the same name is
  refused and the persisted table stays, a boolean one from another source is added.
\<close>

theorem add_assessment_to_df_value_types_witness:
  "same_value_type_per_name [assessment_to_entity ''e'' relevant_by_human]
   \<and> add_assessment_to_df [assessment_to_entity ''e'' relevant_by_human]
      (assessment_to_entity ''e'' relevance_by_code) ''e'' =
     Inl (MlflowException (ValueTypeDoesNotMatch ''relevance'' TNumeric TBoolean)
            INVALID_PARAMETER_VALUE)
   \<and> fst (log_assessments (\<lambda>_. []) ''e'' (Single (AssessmentObj relevance_by_code))
            (Some ''run1'') logged_store) =
     Inl (MlflowException (ValueTypeDoesNotMatch ''relevance'' TNumeric TBoolean)
            INVALID_PARAMETER_VALUE)
   \<and> artifacts (snd (log_assessments (\<lambda>_. []) ''e'' (Single (AssessmentObj relevance_by_code))
            (Some ''run1'') logged_store)) = artifacts logged_store
   \<and> same_value_type_per_name [assessment_to_entity ''e'' relevant_by_human,
                                 assessment_to_entity ''e'' irrelevant_by_code]"
proof -
  let ?r = "assessment_to_entity ''e'' relevant_by_human"
  let ?a = "assessment_to_entity ''e'' relevance_by_code"
  let ?b = "assessment_to_entity ''e'' irrelevant_by_code"
  have inv: "same_value_type_per_name [?r]"
    by (simp add: same_value_type_per_name_def)
  have ida: "ae_evaluation_id ?a = ''e''" and idb: "ae_evaluation_id ?b = ''e''"
    by (simp_all add: assessment_to_entity_def)
  have conflict: "\<exists>row \<in> set [?r]. matches_name (ae_evaluation_id ?a) ?a row
                          \<and> get_value_type row \<noteq> get_value_type ?a"
    by (simp add: assessment_to_entity_def matches_name_def get_value_type_def
          relevant_by_human_def relevance_by_code_def)
  have none: "\<not> (\<exists>row \<in> set [?r]. matches_name (ae_evaluation_id ?b) ?b row
                          \<and> get_value_type row \<noteq> get_value_type ?b)"
    by (simp add: assessment_to_entity_def matches_name_def get_value_type_def
          relevant_by_human_def irrelevant_by_code_def)
  have vals: "ae_name ?a = ''relevance''" "get_value_type ?a = TNumeric"
    by (simp_all add: assessment_to_entity_def get_value_type_def relevance_by_code_def)
  have m: "matches_name ''e'' ?a ?r" "get_value_type ?r = TBoolean"
    by (simp_all add: assessment_to_entity_def get_value_type_def matches_name_def
          relevant_by_human_def relevance_by_code_def)
  have ge: "fst (get_evaluation ''run1'' ''e'' logged_store) =
     Inr \<lparr>ee_evaluation_id = ''e'', ee_run_id = ''run1'', ee_inputs_id = None,
          ee_inputs = [(''question'', ''q1'')], ee_outputs = [(''answer'', ''a1'')],
          ee_request_id = None, ee_targets = None,
          ee_assessments = [assessment_to_entity ''e'' relevant_by_human],
          ee_metrics = []\<rparr>"
    using get_evaluation_found[of logged_store "''run1''" "[one_evaluation_row]" "[]"
        "[assessment_to_entity ''e'' relevant_by_human]" "''e''"]
    by (simp add: has_tables_def logged_store_def empty_store_def one_evaluation_row_def
          dataframes_to_evaluations_def assessment_to_entity_def)
  have tbl: "map_of (artifacts logged_store ''run1'') ''_assessments.json''
              = Some (AssessmentsTable [?r])"
    by (simp add: logged_store_def empty_store_def)
  note T = add_assessment_to_df_value_types[OF inv, of ?a, unfolded if_P[OF conflict], unfolded ida vals]
  from T obtain t where t:
    "add_assessment_to_df [?r] ?a ''e'' =
          Inl (MlflowException (ValueTypeDoesNotMatch ''relevance'' TNumeric t)
                 INVALID_PARAMETER_VALUE)
     \<and> t \<noteq> TNumeric
     \<and> (\<forall>row \<in> set [?r]. matches_name ''e'' ?a row \<longrightarrow> get_value_type row = t)
     \<and> (\<forall>to_metrics given rid s run_id ev.
                      ?a = assessment_to_entity ''e'' given
                      \<and> run_id = (case rid of Some r \<Rightarrow> r | None \<Rightarrow> get_or_start_run s)
                      \<and> fst (get_evaluation run_id ''e'' s) = Inr ev
                      \<and> map_of (artifacts s run_id) ''_assessments.json''
                          = Some (AssessmentsTable [?r])
                      \<longrightarrow> (\<exists>s'. log_assessments to_metrics ''e''
                                   (Single (AssessmentObj given)) rid s =
                                 (Inl (MlflowException
                                         (ValueTypeDoesNotMatch ''relevance'' TNumeric t)
                                         INVALID_PARAMETER_VALUE), s')
                               \<and> artifacts s' = artifacts s
                               \<and> run_metrics s' = run_metrics s))" ..
  from t have t2: "\<forall>row \<in> set [?r]. matches_name ''e'' ?a row \<longrightarrow> get_value_type row = t"
    by (elim conjE)
  with m have t_eq: "t = TBoolean" by simp
  from t have 1: "add_assessment_to_df [?r] ?a ''e'' =
          Inl (MlflowException (ValueTypeDoesNotMatch ''relevance'' TNumeric t)
                 INVALID_PARAMETER_VALUE)" by (rule conjunct1)
  from t have t4: "\<forall>to_metrics given rid s run_id ev.
                      ?a = assessment_to_entity ''e'' given
                      \<and> run_id = (case rid of Some r \<Rightarrow> r | None \<Rightarrow> get_or_start_run s)
                      \<and> fst (get_evaluation run_id ''e'' s) = Inr ev
                      \<and> map_of (artifacts s run_id) ''_assessments.json''
                          = Some (AssessmentsTable [?r])
                      \<longrightarrow> (\<exists>s'. log_assessments to_metrics ''e''
                                   (Single (AssessmentObj given)) rid s =
                                 (Inl (MlflowException
                                         (ValueTypeDoesNotMatch ''relevance'' TNumeric t)
                                         INVALID_PARAMETER_VALUE), s')
                               \<and> artifacts s' = artifacts s
                               \<and> run_metrics s' = run_metrics s)"
    by (elim conjE)
  have "\<exists>s'. log_assessments (\<lambda>_. []) ''e'' (Single (AssessmentObj relevance_by_code))
                (Some ''run1'') logged_store =
              (Inl (MlflowException (ValueTypeDoesNotMatch ''relevance'' TNumeric t)
                      INVALID_PARAMETER_VALUE), s')
            \<and> artifacts s' = artifacts logged_store
            \<and> run_metrics s' = run_metrics logged_store"
    using t4[rule_format, where given = relevance_by_code and rid = "Some ''run1''"
      and s = logged_store and run_id = "''run1''" and to_metrics = "\<lambda>_. []"] ge tbl
    by simp
  then obtain s' where 4: "log_assessments (\<lambda>_. []) ''e''
        (Single (AssessmentObj relevance_by_code)) (Some ''run1'') logged_store =
          (Inl (MlflowException (ValueTypeDoesNotMatch ''relevance'' TNumeric t)
                  INVALID_PARAMETER_VALUE), s')
        \<and> artifacts s' = artifacts logged_store
        \<and> run_metrics s' = run_metrics logged_store" ..
  note F = add_assessment_to_df_value_types[OF inv, of ?b, unfolded if_not_P[OF none], unfolded idb]
  from F obtain df' where 5: "add_assessment_to_df [?r] ?b ''e'' = Inr df'
    \<and> same_value_type_per_name df'" ..
  have "add_assessment_to_df [?r] ?b ''e'' = Inr [?r, ?b]"
    by (simp add: add_assessment_to_df_def assessment_to_entity_def relevant_by_human_def
        irrelevant_by_code_def matches_name_def matches_name_and_source_def
        get_value_type_def append_to_assessments_dataframe_def)
  with 5 have 6: "same_value_type_per_name [?r, ?b]" by simp
  from inv 1 4 6 t_eq show ?thesis by simp
qed

subsection \<open>The order of the steps of logging assessments\<close>

lemma log_assessments_calls_prefix:
  assumes run: "run_id = (case rid of Some r \<Rightarrow> r | None \<Rightarrow> get_or_start_run s)"
  shows "prefix (calls (snd (get_evaluation run_id e s)))
           (calls (snd (log_assessments to_metrics e arg rid s)))"
proof -
  obtain r s1 where ge: "get_evaluation run_id e s = (r, s1)"
    by (cases "get_evaluation run_id e s")
  show ?thesis
  proof (cases r)
    case (Inl err)
    with log_assessments_fetch_fails[OF _ run, of e err s1 to_metrics arg] ge
    show ?thesis by simp
  next
    case (Inr ev)
    note X = log_assessments_after_fetch[OF ge[unfolded Inr] run, of to_metrics arg]
    show ?thesis
      unfolding ge X
      by (simp add: log_artifact_helper_def update_assessments_stats_eq
            split: option.splits sum.splits)
  qed
qed

text \<open>
  Claim C7. \<^verbatim>\<open>log_assessments\<close> fetches the evaluation first: the calls of the fetch
  open the calls of the whole, so every later read of the assessments table, every call
  of the aggregator and every write comes after them; a failure of the fetch is the
  result of the whole, in the store the fetch left; and when the evaluation does not
  exist (the run lacks a table, or its evaluations table has no row of the id) the call
  fails with \<^verbatim>\<open>RESOURCE_DOES_NOT_EXIST\<close> and the store is as before, but for the
  record of listing the artifacts and reading the evaluations table.
\<close>

theorem log_assessments_fetches_first:
  assumes run: "run_id = (case rid of Some r \<Rightarrow> r | None \<Rightarrow> get_or_start_run s)"
  shows "prefix (calls (snd (get_evaluation run_id e s)))
           (calls (snd (log_assessments to_metrics e arg rid s)))
    \<and> (\<forall>err. fst (get_evaluation run_id e s) = Inl err \<longrightarrow>
          log_assessments to_metrics e arg rid s = (Inl err, snd (get_evaluation run_id e s)))
    \<and> (\<not> has_tables s run_id
         \<or> (\<exists>evaluations_df. has_tables s run_id
               \<and> map_of (artifacts s run_id) ''_evaluations.json''
                    = Some (EvaluationsTable evaluations_df)
               \<and> filter (\<lambda>row. er_evaluation_id row = e) evaluations_df = [])
        \<longrightarrow> (\<exists>msg cs. log_assessments to_metrics e arg rid s =
                (Inl (MlflowException msg RESOURCE_DOES_NOT_EXIST),
                 s\<lparr>calls := calls s @ cs\<rparr>)
              \<and> set cs \<subseteq> {ListArtifacts run_id,
                             DownloadArtifacts run_id ''_evaluations.json''}))"
proof (intro conjI allI impI)
  show "prefix (calls (snd (get_evaluation run_id e s)))
           (calls (snd (log_assessments to_metrics e arg rid s)))"
    using log_assessments_calls_prefix[OF run] .
next
  fix err assume "fst (get_evaluation run_id e s) = Inl err"
  then have "get_evaluation run_id e s = (Inl err, snd (get_evaluation run_id e s))"
    by (cases "get_evaluation run_id e s") simp
  from log_assessments_fetch_fails[OF this run]
  show "log_assessments to_metrics e arg rid s = (Inl err, snd (get_evaluation run_id e s))" .
next
  assume absent: "\<not> has_tables s run_id
         \<or> (\<exists>evaluations_df. has_tables s run_id
               \<and> map_of (artifacts s run_id) ''_evaluations.json''
                    = Some (EvaluationsTable evaluations_df)
               \<and> filter (\<lambda>row. er_evaluation_id row = e) evaluations_df = [])"
  have "\<exists>msg cs. get_evaluation run_id e s =
                (Inl (MlflowException msg RESOURCE_DOES_NOT_EXIST), s\<lparr>calls := calls s @ cs\<rparr>)
              \<and> set cs \<subseteq> {ListArtifacts run_id, DownloadArtifacts run_id ''_evaluations.json''}"
    using absent
  proof
    assume "\<not> has_tables s run_id"
    from get_evaluation_no_tables[OF this, of e] obtain cs where
      "get_evaluation run_id e s =
           (Inl (MlflowException RunDoesNotContainEvaluations RESOURCE_DOES_NOT_EXIST),
            s\<lparr>calls := calls s @ cs\<rparr>) \<and> set cs \<subseteq> {ListArtifacts run_id}" ..
    then have "get_evaluation run_id e s =
           (Inl (MlflowException RunDoesNotContainEvaluations RESOURCE_DOES_NOT_EXIST),
            s\<lparr>calls := calls s @ cs\<rparr>)
        \<and> set cs \<subseteq> {ListArtifacts run_id, DownloadArtifacts run_id ''_evaluations.json''}"
      by auto
    then show ?thesis by (intro exI)
  next
    assume "\<exists>evaluations_df. has_tables s run_id
               \<and> map_of (artifacts s run_id) ''_evaluations.json''
                    = Some (EvaluationsTable evaluations_df)
               \<and> filter (\<lambda>row. er_evaluation_id row = e) evaluations_df = []"
    then obtain evaluations_df where h: "has_tables s run_id"
      "map_of (artifacts s run_id) ''_evaluations.json'' = Some (EvaluationsTable evaluations_df)"
      "filter (\<lambda>row. er_evaluation_id row = e) evaluations_df = []" by blast
    let ?cs = "[ListArtifacts run_id, ListArtifacts run_id,
                 ListArtifacts run_id, DownloadArtifacts run_id ''_evaluations.json'']"
    from get_evaluation_no_row[OF h]
    have "get_evaluation run_id e s =
           (Inl (MlflowException (EvaluationIdDoesNotExist e run_id) RESOURCE_DOES_NOT_EXIST),
            s\<lparr>calls := calls s @ ?cs\<rparr>)
        \<and> set ?cs \<subseteq> {ListArtifacts run_id, DownloadArtifacts run_id ''_evaluations.json''}"
      by simp
    then show ?thesis by (intro exI)
  qed
  then obtain msg cs where g: "get_evaluation run_id e s =
                (Inl (MlflowException msg RESOURCE_DOES_NOT_EXIST), s\<lparr>calls := calls s @ cs\<rparr>)"
     and cs: "set cs \<subseteq> {ListArtifacts run_id, DownloadArtifacts run_id ''_evaluations.json''}"
    by blast
  from log_assessments_fetch_fails[OF g run, of to_metrics arg] cs
  show "\<exists>msg cs. log_assessments to_metrics e arg rid s =
                (Inl (MlflowException msg RESOURCE_DOES_NOT_EXIST),
                 s\<lparr>calls := calls s @ cs\<rparr>)
              \<and> set cs \<subseteq> {ListArtifacts run_id,
                             DownloadArtifacts run_id ''_evaluations.json''}"
    by blast
qed

text \<open>Claim C7 at a run that holds another evaluation only.\<close>

theorem log_assessments_fetches_first_witness:
  "log_assessments (\<lambda>_. []) ''f'' (Single (AssessmentObj relevant_by_human)) (Some ''run1'')
      logged_store =
     (Inl (MlflowException (EvaluationIdDoesNotExist ''f'' ''run1'') RESOURCE_DOES_NOT_EXIST),
      logged_store\<lparr>calls := [ListArtifacts ''run1'', ListArtifacts ''run1'',
              ListArtifacts ''run1'', DownloadArtifacts ''run1'' ''_evaluations.json'']\<rparr>)"
proof -
  have yes: "has_tables logged_store ''run1''"
    by (simp add: has_tables_def logged_store_def empty_store_def)
  have tbl: "map_of (artifacts logged_store ''run1'') ''_evaluations.json''
               = Some (EvaluationsTable [one_evaluation_row])"
    by (simp add: logged_store_def empty_store_def)
  have row: "filter (\<lambda>row. er_evaluation_id row = ''f'') [one_evaluation_row] = []"
    by (simp add: one_evaluation_row_def)
  have c: "calls logged_store = []" by (simp add: logged_store_def empty_store_def)
  have g: "get_evaluation ''run1'' ''f'' logged_store =
        (Inl (MlflowException (EvaluationIdDoesNotExist ''f'' ''run1'') RESOURCE_DOES_NOT_EXIST),
         logged_store\<lparr>calls := [ListArtifacts ''run1'', ListArtifacts ''run1'',
              ListArtifacts ''run1'', DownloadArtifacts ''run1'' ''_evaluations.json'']\<rparr>)"
    using get_evaluation_no_row[OF yes tbl row] c by simp
  have r: "''run1'' = (case Some ''run1'' of Some r \<Rightarrow> r | None \<Rightarrow> get_or_start_run logged_store)"
    by simp
  from log_assessments_fetches_first[OF r, of "''f''" "\<lambda>_. []"
         "Single (AssessmentObj relevant_by_human)"]
  have "\<forall>err. fst (get_evaluation ''run1'' ''f'' logged_store) = Inl err \<longrightarrow>
          log_assessments (\<lambda>_. []) ''f'' (Single (AssessmentObj relevant_by_human))
            (Some ''run1'') logged_store
          = (Inl err, snd (get_evaluation ''run1'' ''f'' logged_store))"
    by (elim conjE)
  with g show ?thesis by simp
qed

text \<open>
  Claim C10. On every successful path of \<^verbatim>\<open>log_assessments\<close> the calls made are
  reads, then the aggregator's calls and metric batches for the merged in-memory table,
  then, last, the write of the assessments table; the logged metrics are those of the
  merged table. And when that last write fails, the call fails, the metrics of the
  merged table are logged all the same, and the persisted assessments table is still
  the one from before the merge.
\<close>

theorem stats_logged_before_table_persisted:
  assumes run: "run_id = (case rid of Some r \<Rightarrow> r | None \<Rightarrow> get_or_start_run s)"
  shows "(fst (log_assessments to_metrics e arg rid s) = Inr () \<longrightarrow>
           (\<exists>df df' reads.
               map_of (artifacts s run_id) ''_assessments.json'' = Some (AssessmentsTable df)
             \<and> add_assessments_to_df df
                  (map (assessment_to_entity e) (given_assessments arg)) e = Inr df'
             \<and> list_all is_read reads
             \<and> calls (snd (log_assessments to_metrics e arg rid s)) =
                 calls s @ reads
                 @ stats_calls to_metrics run_id df' (remdups (map a_name (given_assessments arg)))
                 @ [LogArtifact run_id ''_assessments.json'']
             \<and> run_metrics (snd (log_assessments to_metrics e arg rid s)) =
                 run_metrics s
                 @ stats_batches to_metrics run_id df'
                     (remdups (map a_name (given_assessments arg)))
             \<and> map_of (artifacts (snd (log_assessments to_metrics e arg rid s)) run_id)
                   ''_assessments.json'' = Some (AssessmentsTable df')))
    \<and> (\<forall>ev df df'.
           fst (get_evaluation run_id e s) = Inr ev \<and> \<not> mixed_argument arg
         \<and> map_of (artifacts s run_id) ''_assessments.json'' = Some (AssessmentsTable df)
         \<and> add_assessments_to_df df
              (map (assessment_to_entity e) (given_assessments arg)) e = Inr df'
         \<and> ''_assessments.json'' \<in> failing_writes s
         \<longrightarrow> fst (log_assessments to_metrics e arg rid s) = Inl (WriteFailed ''_assessments.json'')
           \<and> run_metrics (snd (log_assessments to_metrics e arg rid s)) =
                 run_metrics s
                 @ stats_batches to_metrics run_id df'
                     (remdups (map a_name (given_assessments arg)))
           \<and> map_of (artifacts (snd (log_assessments to_metrics e arg rid s)) run_id)
                   ''_assessments.json'' = Some (AssessmentsTable df))"
proof (intro conjI allI impI)
  assume ok: "fst (log_assessments to_metrics e arg rid s) = Inr ()"
  from log_assessments_success[OF ok run] obtain df df' reads where
    h: "map_of (artifacts s run_id) ''_assessments.json'' = Some (AssessmentsTable df)
    \<and> add_assessments_to_df df (map (assessment_to_entity e) (given_assessments arg)) e
        = Inr df'
    \<and> list_all is_read reads
    \<and> snd (log_assessments to_metrics e arg rid s) =
        s\<lparr>artifacts := (artifacts s)
              (run_id := AList.update ''_assessments.json'' (AssessmentsTable df')
                           (artifacts s run_id)),
          run_metrics := run_metrics s @
             stats_batches to_metrics run_id df' (remdups (map a_name (given_assessments arg))),
          calls := calls s @ reads @
             stats_calls to_metrics run_id df' (remdups (map a_name (given_assessments arg)))
             @ [LogArtifact run_id ''_assessments.json'']\<rparr>"
    by (elim exE)
  from h have st: "snd (log_assessments to_metrics e arg rid s) =
        s\<lparr>artifacts := (artifacts s)
              (run_id := AList.update ''_assessments.json'' (AssessmentsTable df')
                           (artifacts s run_id)),
          run_metrics := run_metrics s @
             stats_batches to_metrics run_id df' (remdups (map a_name (given_assessments arg))),
          calls := calls s @ reads @
             stats_calls to_metrics run_id df' (remdups (map a_name (given_assessments arg)))
             @ [LogArtifact run_id ''_assessments.json'']\<rparr>"
    by (elim conjE)
  have "map_of (artifacts s run_id) ''_assessments.json'' = Some (AssessmentsTable df)
             \<and> add_assessments_to_df df
                  (map (assessment_to_entity e) (given_assessments arg)) e = Inr df'
             \<and> list_all is_read reads
             \<and> calls (snd (log_assessments to_metrics e arg rid s)) =
                 calls s @ reads
                 @ stats_calls to_metrics run_id df' (remdups (map a_name (given_assessments arg)))
                 @ [LogArtifact run_id ''_assessments.json'']
             \<and> run_metrics (snd (log_assessments to_metrics e arg rid s)) =
                 run_metrics s
                 @ stats_batches to_metrics run_id df'
                     (remdups (map a_name (given_assessments arg)))
             \<and> map_of (artifacts (snd (log_assessments to_metrics e arg rid s)) run_id)
                   ''_assessments.json'' = Some (AssessmentsTable df')"
    using h unfolding st by (simp add: update_conv')
  then show "\<exists>df df' reads.
               map_of (artifacts s run_id) ''_assessments.json'' = Some (AssessmentsTable df)
             \<and> add_assessments_to_df df
                  (map (assessment_to_entity e) (given_assessments arg)) e = Inr df'
             \<and> list_all is_read reads
             \<and> calls (snd (log_assessments to_metrics e arg rid s)) =
                 calls s @ reads
                 @ stats_calls to_metrics run_id df' (remdups (map a_name (given_assessments arg)))
                 @ [LogArtifact run_id ''_assessments.json'']
             \<and> run_metrics (snd (log_assessments to_metrics e arg rid s)) =
                 run_metrics s
                 @ stats_batches to_metrics run_id df'
                     (remdups (map a_name (given_assessments arg)))
             \<and> map_of (artifacts (snd (log_assessments to_metrics e arg rid s)) run_id)
                   ''_assessments.json'' = Some (AssessmentsTable df')"
    by (intro exI)
next
  fix ev df df'
  assume h: "fst (get_evaluation run_id e s) = Inr ev \<and> \<not> mixed_argument arg
         \<and> map_of (artifacts s run_id) ''_assessments.json'' = Some (AssessmentsTable df)
         \<and> add_assessments_to_df df
              (map (assessment_to_entity e) (given_assessments arg)) e = Inr df'
         \<and> ''_assessments.json'' \<in> failing_writes s"
  then have ge: "fst (get_evaluation run_id e s) = Inr ev" and nm: "\<not> mixed_argument arg"
    and tbl: "map_of (artifacts s run_id) ''_assessments.json'' = Some (AssessmentsTable df)"
    and mg: "add_assessments_to_df df
              (map (assessment_to_entity e) (given_assessments arg)) e = Inr df'"
    and fl: "''_assessments.json'' \<in> failing_writes s"
    by simp_all
  note W = log_assessments_write_fails[OF ge run nm tbl mg fl, of to_metrics]
  show "fst (log_assessments to_metrics e arg rid s) = Inl (WriteFailed ''_assessments.json'')"
    using W(1) .
  show "run_metrics (snd (log_assessments to_metrics e arg rid s)) =
                 run_metrics s
                 @ stats_batches to_metrics run_id df'
                     (remdups (map a_name (given_assessments arg)))"
    using W(2) .
  show "map_of (artifacts (snd (log_assessments to_metrics e arg rid s)) run_id)
                   ''_assessments.json'' = Some (AssessmentsTable df)"
    using W(3) tbl by simp
qed


text \<open>
  Claim C10 at the run with one boolean assessment, logging a second one from another
  source, with the write succeeding and with the write failing.
\<close>

theorem stats_logged_before_table_persisted_witness:
  "fst (log_assessments count_metric ''e'' (Single (AssessmentObj irrelevant_by_code))
          (Some ''run1'') logged_store) = Inr ()
   \<and> run_metrics (snd (log_assessments count_metric ''e''
          (Single (AssessmentObj irrelevant_by_code)) (Some ''run1'') logged_store)) =
       stats_batches count_metric ''run1''
         [assessment_to_entity ''e'' relevant_by_human,
          assessment_to_entity ''e'' irrelevant_by_code] [''relevance'']
   \<and> map_of (artifacts (snd (log_assessments count_metric ''e''
          (Single (AssessmentObj irrelevant_by_code)) (Some ''run1'') logged_store)) ''run1'')
        ''_assessments.json'' =
       Some (AssessmentsTable [assessment_to_entity ''e'' relevant_by_human,
                               assessment_to_entity ''e'' irrelevant_by_code])
   \<and> fst (log_assessments count_metric ''e'' (Single (AssessmentObj irrelevant_by_code))
          (Some ''run1'') failing_store) = Inl (WriteFailed ''_assessments.json'')
   \<and> run_metrics (snd (log_assessments count_metric ''e''
          (Single (AssessmentObj irrelevant_by_code)) (Some ''run1'') failing_store)) =
       stats_batches count_metric ''run1''
         [assessment_to_entity ''e'' relevant_by_human,
          assessment_to_entity ''e'' irrelevant_by_code] [''relevance'']
   \<and> map_of (artifacts (snd (log_assessments count_metric ''e''
          (Single (AssessmentObj irrelevant_by_code)) (Some ''run1'') failing_store)) ''run1'')
        ''_assessments.json'' =
       Some (AssessmentsTable [assessment_to_entity ''e'' relevant_by_human])"
proof -
  let ?r = "assessment_to_entity ''e'' relevant_by_human"
  let ?b = "assessment_to_entity ''e'' irrelevant_by_code"
  let ?arg = "Single (AssessmentObj irrelevant_by_code)"
  let ?ev = "\<lparr>ee_evaluation_id = ''e'', ee_run_id = ''run1'', ee_inputs_id = None,
          ee_inputs = [(''question'', ''q1'')], ee_outputs = [(''answer'', ''a1'')],
          ee_request_id = None, ee_targets = None,
          ee_assessments = [?r], ee_metrics = []\<rparr>"
  have names: "remdups (map a_name (given_assessments ?arg)) = [''relevance'']"
    by (simp add: irrelevant_by_code_def)
  have merge: "add_assessments_to_df [?r]
                 (map (assessment_to_entity ''e'') (given_assessments ?arg)) ''e'' = Inr [?r, ?b]"
    by (simp add: add_assessment_to_df_def assessment_to_entity_def relevant_by_human_def
        irrelevant_by_code_def matches_name_def matches_name_and_source_def
        get_value_type_def append_to_assessments_dataframe_def)
  have nm: "\<not> mixed_argument ?arg" by simp
  have art: "artifacts failing_store = artifacts logged_store"
    "run_metrics failing_store = []" "run_metrics logged_store = []"
    "''_assessments.json'' \<in> failing_writes failing_store"
    "failing_writes logged_store = {}"
    by (simp_all add: failing_store_def logged_store_def empty_store_def)
  have tbl: "map_of (artifacts logged_store ''run1'') ''_assessments.json''
              = Some (AssessmentsTable [?r])"
    by (simp add: logged_store_def empty_store_def)
  have tables: "has_tables logged_store ''run1''"
    "map_of (artifacts logged_store ''run1'') ''_evaluations.json''
       = Some (EvaluationsTable [one_evaluation_row])"
    "map_of (artifacts logged_store ''run1'') ''_metrics.json'' = Some (MetricsTable [])"
    "filter (\<lambda>row. er_evaluation_id row = ''e'') [one_evaluation_row] \<noteq> []"
    by (simp_all add: has_tables_def logged_store_def empty_store_def one_evaluation_row_def)
  have tables': "has_tables failing_store ''run1''"
    using tables(1) art(1) by (simp add: has_tables_def)
  have ge: "fst (get_evaluation ''run1'' ''e'' logged_store) = Inr ?ev"
    using get_evaluation_found[OF tables(1,2,3) tbl tables(4)]
    by (simp add: one_evaluation_row_def dataframes_to_evaluations_def assessment_to_entity_def)
  have ge': "fst (get_evaluation ''run1'' ''e'' failing_store) = Inr ?ev"
    using get_evaluation_found[OF tables', of "[one_evaluation_row]" "[]" "[?r]" "''e''"]
      tables(2,3,4) tbl art(1)
    by (simp add: one_evaluation_row_def dataframes_to_evaluations_def assessment_to_entity_def)
  have rl: "''run1'' = (case Some ''run1'' of Some r \<Rightarrow> r | None \<Rightarrow> get_or_start_run logged_store)"
    and rf: "''run1'' = (case Some ''run1'' of Some r \<Rightarrow> r | None \<Rightarrow> get_or_start_run failing_store)"
    by simp_all
  obtain s1 where gfull: "get_evaluation ''run1'' ''e'' logged_store = (Inr ?ev, s1)"
    using ge by (cases "get_evaluation ''run1'' ''e'' logged_store") auto
  have fw: "failing_writes s1 = {}"
    using get_evaluation_keeps(3)[OF gfull] art(5) by simp
  have ok: "fst (log_assessments count_metric ''e'' ?arg (Some ''run1'') logged_store) = Inr ()"
    using log_assessments_after_fetch[OF gfull rl, of count_metric ?arg] tbl merge fw
    by (simp add: read_assessments_dataframe_def log_artifact_helper_def
          update_assessments_stats_eq)
  note T = stats_logged_before_table_persisted[OF rl, of count_metric "''e''" ?arg]
  from T ok have "\<exists>df df' reads.
               map_of (artifacts logged_store ''run1'') ''_assessments.json''
                 = Some (AssessmentsTable df)
             \<and> add_assessments_to_df df
                  (map (assessment_to_entity ''e'') (given_assessments ?arg)) ''e'' = Inr df'
             \<and> list_all is_read reads
             \<and> calls (snd (log_assessments count_metric ''e'' ?arg (Some ''run1'') logged_store)) =
                 calls logged_store @ reads
                 @ stats_calls count_metric ''run1'' df'
                     (remdups (map a_name (given_assessments ?arg)))
                 @ [LogArtifact ''run1'' ''_assessments.json'']
             \<and> run_metrics (snd (log_assessments count_metric ''e'' ?arg (Some ''run1'')
                    logged_store)) =
                 run_metrics logged_store
                 @ stats_batches count_metric ''run1'' df'
                     (remdups (map a_name (given_assessments ?arg)))
             \<and> map_of (artifacts (snd (log_assessments count_metric ''e'' ?arg (Some ''run1'')
                    logged_store)) ''run1'')
                   ''_assessments.json'' = Some (AssessmentsTable df')"
    by (elim conjE impE) assumption
  then obtain df df' where
    a1: "map_of (artifacts logged_store ''run1'') ''_assessments.json''
                 = Some (AssessmentsTable df)"
    and a2: "add_assessments_to_df df
                  (map (assessment_to_entity ''e'') (given_assessments ?arg)) ''e'' = Inr df'"
    and a3: "run_metrics (snd (log_assessments count_metric ''e'' ?arg (Some ''run1'')
                    logged_store)) =
                 run_metrics logged_store
                 @ stats_batches count_metric ''run1'' df'
                     (remdups (map a_name (given_assessments ?arg)))"
    and a4: "map_of (artifacts (snd (log_assessments count_metric ''e'' ?arg (Some ''run1'')
                    logged_store)) ''run1'')
                   ''_assessments.json'' = Some (AssessmentsTable df')"
    by blast
  from a1 tbl have "df = [?r]" by simp
  with a2 merge have df': "df' = [?r, ?b]" by simp
  note F = stats_logged_before_table_persisted[OF rf, of count_metric "''e''" ?arg]
  from F have "fst (get_evaluation ''run1'' ''e'' failing_store) = Inr ?ev
         \<and> \<not> mixed_argument ?arg
         \<and> map_of (artifacts failing_store ''run1'') ''_assessments.json''
              = Some (AssessmentsTable [?r])
         \<and> add_assessments_to_df [?r]
              (map (assessment_to_entity ''e'') (given_assessments ?arg)) ''e'' = Inr [?r, ?b]
         \<and> ''_assessments.json'' \<in> failing_writes failing_store
         \<longrightarrow> fst (log_assessments count_metric ''e'' ?arg (Some ''run1'') failing_store)
               = Inl (WriteFailed ''_assessments.json'')
           \<and> run_metrics (snd (log_assessments count_metric ''e'' ?arg (Some ''run1'')
                  failing_store)) =
                 run_metrics failing_store
                 @ stats_batches count_metric ''run1'' [?r, ?b]
                     (remdups (map a_name (given_assessments ?arg)))
           \<and> map_of (artifacts (snd (log_assessments count_metric ''e'' ?arg (Some ''run1'')
                  failing_store)) ''run1'')
                   ''_assessments.json'' = Some (AssessmentsTable [?r])"
    by (elim conjE allE)
  with ge' nm tbl merge art have
    b: "fst (log_assessments count_metric ''e'' ?arg (Some ''run1'') failing_store)
               = Inl (WriteFailed ''_assessments.json'')
           \<and> run_metrics (snd (log_assessments count_metric ''e'' ?arg (Some ''run1'')
                  failing_store)) =
                 run_metrics failing_store
                 @ stats_batches count_metric ''run1'' [?r, ?b]
                     (remdups (map a_name (given_assessments ?arg)))
           \<and> map_of (artifacts (snd (log_assessments count_metric ''e'' ?arg (Some ''run1'')
                  failing_store)) ''run1'')
                   ''_assessments.json'' = Some (AssessmentsTable [?r])"
    by simp
  from ok a3 a4 df' b art(2,3) names show ?thesis by simp
qed

subsection \<open>Reading the record of calls\<close>

lemma stats_invocations_append:
  "stats_invocations (xs @ ys) = stats_invocations xs @ stats_invocations ys"
  by (induction xs rule: stats_invocations.induct) simp_all

lemma logged_batches_append:
  "logged_batches (xs @ ys) = logged_batches xs @ logged_batches ys"
  by (induction xs rule: logged_batches.induct) simp_all

lemma reads_hold_no_stats:
  "list_all is_read cs \<Longrightarrow> stats_invocations cs = [] \<and> logged_batches cs = []"
proof (induction cs)
  case Nil
  then show ?case by simp
next
  case (Cons c cs)
  then show ?case by (cases c) simp_all
qed

lemma stats_invocations_batches:
  "stats_invocations (map (\<lambda>p. LogBatch run_id (f p)) xs) = []"
  by (induction xs) simp_all

lemma logged_batches_batches:
  "logged_batches (map (\<lambda>p. LogBatch run_id (f p)) xs) = map (\<lambda>p. (run_id, f p)) xs"
  by (induction xs) simp_all

lemma stats_invocations_stats_calls:
  "stats_invocations (stats_calls to_metrics run_id df names) = names"
  by (induction names)
     (simp_all add: stats_calls_def stats_invocations_append stats_invocations_batches)

lemma logged_batches_stats_calls:
  "logged_batches (stats_calls to_metrics run_id df names)
     = stats_batches to_metrics run_id df names"
  by (induction names)
     (simp_all add: stats_calls_def stats_batches_def logged_batches_append
        logged_batches_batches)

lemma distinct_unique: "distinct (unique xs)" and set_unique: "set (unique xs) = set xs"
  by (simp_all add: unique_def)

lemma compute_assessment_stats_by_source_keys:
  "distinct (map fst (compute_assessment_stats_by_source df n))"
  "set (map fst (compute_assessment_stats_by_source df n))
     = ae_source ` {row \<in> set df. ae_name row = n}"
  by (auto simp: compute_assessment_stats_by_source_def Let_def comp_def
        distinct_unique set_unique)

subsection \<open>Logging evaluations, step by step\<close>

lemma evaluations_to_entities_store:
  "snd (evaluations_to_entities run_id evs s) = s\<lparr>uuids_drawn := uuids_drawn s + length evs\<rparr>"
proof (induction evs arbitrary: s)
  case Nil
  then show ?case by simp
next
  case (Cons ev evs)
  obtain es s2 where r: "evaluations_to_entities run_id evs
                           (s\<lparr>uuids_drawn := Suc (uuids_drawn s)\<rparr>) = (es, s2)"
    by (cases "evaluations_to_entities run_id evs (s\<lparr>uuids_drawn := Suc (uuids_drawn s)\<rparr>)")
  from Cons[of "s\<lparr>uuids_drawn := Suc (uuids_drawn s)\<rparr>"] r
  have "s2 = s\<lparr>uuids_drawn := Suc (uuids_drawn s) + length evs\<rparr>" by simp
  with r show ?case by (simp add: uuid4_hex_def)
qed

lemma log_evaluations_success:
  assumes ok: "fst (log_evaluations to_metrics evs rid s) = Inr ents"
    and run: "run_id = (case rid of Some r \<Rightarrow> r | None \<Rightarrow> get_or_start_run s)"
  shows "calls (snd (log_evaluations to_metrics evs rid s)) =
           calls s @ [LogTable run_id ''_evaluations.json'', LogTable run_id ''_metrics.json'',
                      LogTable run_id ''_assessments.json'']
           @ stats_calls to_metrics run_id (concat (map ee_assessments ents))
               (unique (map ae_name (concat (map ee_assessments ents))))"
    and "map_of (artifacts (snd (log_evaluations to_metrics evs rid s)) run_id)
           ''_assessments.json'' = Some (AssessmentsTable (concat (map ee_assessments ents)))"
proof -
  obtain es s0 where e: "evaluations_to_entities run_id evs s = (es, s0)"
    by (cases "evaluations_to_entities run_id evs s")
  have s0: "s0 = s\<lparr>uuids_drawn := uuids_drawn s + length evs\<rparr>"
    using evaluations_to_entities_store[of run_id evs s] e by simp
  have both: "ents = es \<and>
      snd (log_evaluations to_metrics evs rid s) =
        update_assessments_stats to_metrics run_id (concat (map ee_assessments es))
           (unique (map ae_name (concat (map ee_assessments es))))
           (s0\<lparr>artifacts := (artifacts s0)
                  (run_id := AList.update ''_assessments.json''
                     (AssessmentsTable (concat (map ee_assessments es)))
                     (AList.update ''_metrics.json''
                        (MetricsTable (fst (snd (evaluations_to_dataframes es))))
                        (AList.update ''_evaluations.json''
                           (EvaluationsTable (fst (evaluations_to_dataframes es)))
                           (artifacts s0 run_id)))),
               calls := calls s0 @ [LogTable run_id ''_evaluations.json'',
                      LogTable run_id ''_metrics.json'',
                      LogTable run_id ''_assessments.json'']\<rparr>)"
    using ok unfolding log_evaluations_def Let_def run[symmetric] e
    by (simp add: and_then_def log_table_def evaluations_to_dataframes_def s0
          split: if_splits)
  show "calls (snd (log_evaluations to_metrics evs rid s)) =
           calls s @ [LogTable run_id ''_evaluations.json'', LogTable run_id ''_metrics.json'',
                      LogTable run_id ''_assessments.json'']
           @ stats_calls to_metrics run_id (concat (map ee_assessments ents))
               (unique (map ae_name (concat (map ee_assessments ents))))"
    using both by (simp add: update_assessments_stats_eq s0)
  show "map_of (artifacts (snd (log_evaluations to_metrics evs rid s)) run_id)
           ''_assessments.json'' = Some (AssessmentsTable (concat (map ee_assessments ents)))"
    using both by (simp add: update_assessments_stats_eq s0 update_conv')
qed

text \<open>
  Claim C9. After a successful \<^verbatim>\<open>log_assessments\<close> the names with which the stats
  aggregator was called are distinct and are exactly the names of the assessments given,
  and after a successful \<^verbatim>\<open>log_evaluations\<close> they are distinct and are exactly the
  names in the assessments table written: one call for each name, however many rows
  bear it. The batches logged are, name by name in the order of those calls, one batch
  for each entry of the name's statistics by source; and the sources of these entries
  are distinct and are exactly the sources of the table's rows of that name.
\<close>

theorem stats_once_per_name_and_source:
  assumes run: "run_id = (case rid of Some r \<Rightarrow> r | None \<Rightarrow> get_or_start_run s)"
  shows "(fst (log_assessments to_metrics e arg rid s) = Inr () \<longrightarrow>
           (\<exists>df' new.
               calls (snd (log_assessments to_metrics e arg rid s)) = calls s @ new
             \<and> map_of (artifacts (snd (log_assessments to_metrics e arg rid s)) run_id)
                   ''_assessments.json'' = Some (AssessmentsTable df')
             \<and> distinct (stats_invocations new)
             \<and> set (stats_invocations new) = a_name ` set (given_assessments arg)
             \<and> logged_batches new
                  = stats_batches to_metrics run_id df' (stats_invocations new)))
    \<and> (\<forall>ents. fst (log_evaluations to_metrics evs rid s) = Inr ents \<longrightarrow>
           (\<exists>df new.
               calls (snd (log_evaluations to_metrics evs rid s)) = calls s @ new
             \<and> df = concat (map ee_assessments ents)
             \<and> map_of (artifacts (snd (log_evaluations to_metrics evs rid s)) run_id)
                   ''_assessments.json'' = Some (AssessmentsTable df)
             \<and> distinct (stats_invocations new)
             \<and> set (stats_invocations new) = ae_name ` set df
             \<and> logged_batches new
                  = stats_batches to_metrics run_id df (stats_invocations new)))
    \<and> (\<forall>df n. distinct (map fst (compute_assessment_stats_by_source df n))
             \<and> set (map fst (compute_assessment_stats_by_source df n))
                 = ae_source ` {row \<in> set df. ae_name row = n}
             \<and> stats_batches to_metrics run_id df [n]
                 = map (\<lambda>p. (run_id, to_metrics (snd p)))
                     (compute_assessment_stats_by_source df n))"
proof (intro conjI allI impI)
  assume ok: "fst (log_assessments to_metrics e arg rid s) = Inr ()"
  let ?names = "remdups (map a_name (given_assessments arg))"
  from log_assessments_success[OF ok run] obtain df df' reads where
    h: "map_of (artifacts s run_id) ''_assessments.json'' = Some (AssessmentsTable df)
    \<and> add_assessments_to_df df (map (assessment_to_entity e) (given_assessments arg)) e
        = Inr df'
    \<and> list_all is_read reads
    \<and> snd (log_assessments to_metrics e arg rid s) =
        s\<lparr>artifacts := (artifacts s)
              (run_id := AList.update ''_assessments.json'' (AssessmentsTable df')
                           (artifacts s run_id)),
          run_metrics := run_metrics s @ stats_batches to_metrics run_id df' ?names,
          calls := calls s @ reads @ stats_calls to_metrics run_id df' ?names
             @ [LogArtifact run_id ''_assessments.json'']\<rparr>"
    by (elim exE)
  let ?new = "reads @ stats_calls to_metrics run_id df' ?names
                @ [LogArtifact run_id ''_assessments.json'']"
  from h have st: "snd (log_assessments to_metrics e arg rid s) =
        s\<lparr>artifacts := (artifacts s)
              (run_id := AList.update ''_assessments.json'' (AssessmentsTable df')
                           (artifacts s run_id)),
          run_metrics := run_metrics s @ stats_batches to_metrics run_id df' ?names,
          calls := calls s @ ?new\<rparr>"
    and reads: "list_all is_read reads"
    by simp_all
  have inv: "stats_invocations ?new = ?names"
    using reads_hold_no_stats[OF reads]
    by (simp add: stats_invocations_append stats_invocations_stats_calls)
  have bat: "logged_batches ?new = stats_batches to_metrics run_id df' ?names"
    using reads_hold_no_stats[OF reads]
    by (simp add: logged_batches_append logged_batches_stats_calls)
  have "calls (snd (log_assessments to_metrics e arg rid s)) = calls s @ ?new
             \<and> map_of (artifacts (snd (log_assessments to_metrics e arg rid s)) run_id)
                   ''_assessments.json'' = Some (AssessmentsTable df')
             \<and> distinct (stats_invocations ?new)
             \<and> set (stats_invocations ?new) = a_name ` set (given_assessments arg)
             \<and> logged_batches ?new
                  = stats_batches to_metrics run_id df' (stats_invocations ?new)"
    unfolding inv bat st by (simp add: update_conv')
  then show "\<exists>df' new.
               calls (snd (log_assessments to_metrics e arg rid s)) = calls s @ new
             \<and> map_of (artifacts (snd (log_assessments to_metrics e arg rid s)) run_id)
                   ''_assessments.json'' = Some (AssessmentsTable df')
             \<and> distinct (stats_invocations new)
             \<and> set (stats_invocations new) = a_name ` set (given_assessments arg)
             \<and> logged_batches new
                  = stats_batches to_metrics run_id df' (stats_invocations new)"
    by (intro exI)
next
  fix ents assume ok: "fst (log_evaluations to_metrics evs rid s) = Inr ents"
  let ?df = "concat (map ee_assessments ents)"
  let ?new = "[LogTable run_id ''_evaluations.json'', LogTable run_id ''_metrics.json'',
                      LogTable run_id ''_assessments.json'']
           @ stats_calls to_metrics run_id ?df (unique (map ae_name ?df))"
  note S = log_evaluations_success[OF ok run]
  have inv: "stats_invocations ?new = unique (map ae_name ?df)"
    by (simp add: stats_invocations_stats_calls)
  have bat: "logged_batches ?new = stats_batches to_metrics run_id ?df (unique (map ae_name ?df))"
    by (simp add: logged_batches_stats_calls)
  have "calls (snd (log_evaluations to_metrics evs rid s)) = calls s @ ?new
             \<and> ?df = concat (map ee_assessments ents)
             \<and> map_of (artifacts (snd (log_evaluations to_metrics evs rid s)) run_id)
                   ''_assessments.json'' = Some (AssessmentsTable ?df)
             \<and> distinct (stats_invocations ?new)
             \<and> set (stats_invocations ?new) = ae_name ` set ?df
             \<and> logged_batches ?new
                  = stats_batches to_metrics run_id ?df (stats_invocations ?new)"
    unfolding inv bat using S by (simp add: distinct_unique set_unique)
  then show "\<exists>df new.
               calls (snd (log_evaluations to_metrics evs rid s)) = calls s @ new
             \<and> df = concat (map ee_assessments ents)
             \<and> map_of (artifacts (snd (log_evaluations to_metrics evs rid s)) run_id)
                   ''_assessments.json'' = Some (AssessmentsTable df)
             \<and> distinct (stats_invocations new)
             \<and> set (stats_invocations new) = ae_name ` set df
             \<and> logged_batches new
                  = stats_batches to_metrics run_id df (stats_invocations new)"
    by (intro exI)
next
  fix df n
  show "distinct (map fst (compute_assessment_stats_by_source df n))"
    using compute_assessment_stats_by_source_keys(1) .
  show "set (map fst (compute_assessment_stats_by_source df n))
                 = ae_source ` {row \<in> set df. ae_name row = n}"
    using compute_assessment_stats_by_source_keys(2) .
  show "stats_batches to_metrics run_id df [n]
                 = map (\<lambda>p. (run_id, to_metrics (snd p)))
                     (compute_assessment_stats_by_source df n)"
    by (simp add: stats_batches_def)
qed

lemma distinct_singleton: "distinct xs \<Longrightarrow> set xs = {x} \<Longrightarrow> xs = [x]"
proof (cases xs)
  case Nil
  assume "set xs = {x}" with Nil show ?thesis by simp
next
  case (Cons y ys)
  assume d: "distinct xs" and s: "set xs = {x}"
  from s Cons have y: "y = x" by auto
  from s Cons have "set ys \<subseteq> {x}" by auto
  moreover from d Cons y have "x \<notin> set ys" by simp
  ultimately have "ys = []" by (cases ys) auto
  with Cons y show ?thesis by simp
qed

text \<open>
  Claim C9 where two assessments of one name are logged to an evaluation, and where an
  evaluation with two assessments of one name from two sources is logged.
\<close>

theorem stats_once_per_name_and_source_witness:
  "stats_invocations (calls (snd (log_assessments count_metric ''e''
       (Several [AssessmentObj irrelevant_by_code, AssessmentObj irrelevant_by_human])
       (Some ''run1'') logged_store))) = [''relevance'']
   \<and> stats_invocations (calls (snd (log_evaluations count_metric [mixed_evaluation]
       (Some ''run1'') empty_store))) = [''relevance'']
   \<and> set (map fst (compute_assessment_stats_by_source
         [assessment_to_entity ''e'' relevant_by_human,
          assessment_to_entity ''e'' relevance_by_code] ''relevance''))
       = {AssessmentSource HUMAN ''user1'', AssessmentSource CODE ''scorer''}"
proof -
  let ?r = "assessment_to_entity ''e'' relevant_by_human"
  let ?h = "assessment_to_entity ''e'' irrelevant_by_human"
  let ?b = "assessment_to_entity ''e'' irrelevant_by_code"
  let ?arg = "Several [AssessmentObj irrelevant_by_code, AssessmentObj irrelevant_by_human]"
  let ?ev = "\<lparr>ee_evaluation_id = ''e'', ee_run_id = ''run1'', ee_inputs_id = None,
          ee_inputs = [(''question'', ''q1'')], ee_outputs = [(''answer'', ''a1'')],
          ee_request_id = None, ee_targets = None,
          ee_assessments = [?r], ee_metrics = []\<rparr>"
  have given: "a_name ` set (given_assessments ?arg) = {''relevance''}"
    by (simp add: irrelevant_by_code_def irrelevant_by_human_def)
  have merge: "add_assessments_to_df [?r]
                 (map (assessment_to_entity ''e'') (given_assessments ?arg)) ''e'' = Inr [?h, ?b]"
    by (simp add: add_assessment_to_df_def assessment_to_entity_def relevant_by_human_def
        irrelevant_by_code_def irrelevant_by_human_def matches_name_def
        matches_name_and_source_def get_value_type_def append_to_assessments_dataframe_def)
  have tbl: "map_of (artifacts logged_store ''run1'') ''_assessments.json''
              = Some (AssessmentsTable [?r])"
    by (simp add: logged_store_def empty_store_def)
  have tables: "has_tables logged_store ''run1''"
    "map_of (artifacts logged_store ''run1'') ''_evaluations.json''
       = Some (EvaluationsTable [one_evaluation_row])"
    "map_of (artifacts logged_store ''run1'') ''_metrics.json'' = Some (MetricsTable [])"
    "filter (\<lambda>row. er_evaluation_id row = ''e'') [one_evaluation_row] \<noteq> []"
    by (simp_all add: has_tables_def logged_store_def empty_store_def one_evaluation_row_def)
  have c0: "calls logged_store = []" "calls empty_store = []"
    "failing_writes logged_store = {}"
    by (simp_all add: logged_store_def empty_store_def)
  have ge: "fst (get_evaluation ''run1'' ''e'' logged_store) = Inr ?ev"
    using get_evaluation_found[OF tables(1,2,3) tbl tables(4)]
    by (simp add: one_evaluation_row_def dataframes_to_evaluations_def assessment_to_entity_def)
  have rl: "''run1'' = (case Some ''run1'' of Some r \<Rightarrow> r | None \<Rightarrow> get_or_start_run logged_store)"
    and re: "''run1'' = (case Some ''run1'' of Some r \<Rightarrow> r | None \<Rightarrow> get_or_start_run empty_store)"
    by simp_all
  obtain s1 where gfull: "get_evaluation ''run1'' ''e'' logged_store = (Inr ?ev, s1)"
    using ge by (cases "get_evaluation ''run1'' ''e'' logged_store") auto
  have fw: "failing_writes s1 = {}"
    using get_evaluation_keeps(3)[OF gfull] c0(3) by simp
  have nm: "\<not> mixed_argument ?arg" by (simp add: mixed_forms_def)
  have ok: "fst (log_assessments count_metric ''e'' ?arg (Some ''run1'') logged_store) = Inr ()"
    using log_assessments_after_fetch[OF gfull rl, of count_metric ?arg] tbl merge fw nm
    by (simp add: read_assessments_dataframe_def log_artifact_helper_def
          update_assessments_stats_eq)
  note T = stats_once_per_name_and_source[OF rl, of count_metric "''e''" ?arg]
  from T[THEN conjunct1, THEN mp, OF ok] have "\<exists>df' new.
               calls (snd (log_assessments count_metric ''e'' ?arg (Some ''run1'') logged_store))
                 = calls logged_store @ new
             \<and> map_of (artifacts (snd (log_assessments count_metric ''e'' ?arg (Some ''run1'')
                   logged_store)) ''run1'')
                   ''_assessments.json'' = Some (AssessmentsTable df')
             \<and> distinct (stats_invocations new)
             \<and> set (stats_invocations new) = a_name ` set (given_assessments ?arg)
             \<and> logged_batches new
                  = stats_batches count_metric ''run1'' df' (stats_invocations new)" .
  then obtain new where
    n1: "calls (snd (log_assessments count_metric ''e'' ?arg (Some ''run1'') logged_store))
                 = calls logged_store @ new"
    and n2: "distinct (stats_invocations new)"
    and n3: "set (stats_invocations new) = a_name ` set (given_assessments ?arg)"
    by blast
  from n1 c0 distinct_singleton[OF n2 n3[unfolded given]]
  have first: "stats_invocations (calls (snd (log_assessments count_metric ''e'' ?arg
                  (Some ''run1'') logged_store))) = [''relevance'']"
    by simp
  let ?ents = "[evaluation_to_entity ''run1'' ''e'' mixed_evaluation]"
  have ok2: "fst (log_evaluations count_metric [mixed_evaluation] (Some ''run1'') empty_store)
               = Inr ?ents"
    by (simp add: log_evaluations_def and_then_def log_table_def uuid4_hex_def
          empty_store_def evaluations_to_dataframes_def Let_def)
  have names2: "ae_name ` set (concat (map ee_assessments ?ents)) = {''relevance''}"
    by (simp add: evaluation_to_entity_def mixed_evaluation_def assessment_to_entity_def
          relevant_by_human_def relevance_by_code_def)
  note E = stats_once_per_name_and_source[OF re, of count_metric _ _ "[mixed_evaluation]"]
  from E[THEN conjunct2, THEN conjunct1] have "\<forall>ents. fst (log_evaluations count_metric [mixed_evaluation] (Some ''run1'')
                           empty_store) = Inr ents \<longrightarrow>
           (\<exists>df new.
               calls (snd (log_evaluations count_metric [mixed_evaluation] (Some ''run1'')
                  empty_store)) = calls empty_store @ new
             \<and> df = concat (map ee_assessments ents)
             \<and> map_of (artifacts (snd (log_evaluations count_metric [mixed_evaluation]
                  (Some ''run1'') empty_store)) ''run1'')
                   ''_assessments.json'' = Some (AssessmentsTable df)
             \<and> distinct (stats_invocations new)
             \<and> set (stats_invocations new) = ae_name ` set df
             \<and> logged_batches new
                  = stats_batches count_metric ''run1'' df (stats_invocations new))" .
  with ok2 obtain new2 where
    m1: "calls (snd (log_evaluations count_metric [mixed_evaluation] (Some ''run1'')
                  empty_store)) = calls empty_store @ new2"
    and m2: "distinct (stats_invocations new2)"
    and m3: "set (stats_invocations new2) = ae_name ` set (concat (map ee_assessments ?ents))"
    by blast
  from m1 c0 distinct_singleton[OF m2 m3[unfolded names2]]
  have second: "stats_invocations (calls (snd (log_evaluations count_metric
                  [mixed_evaluation] (Some ''run1'') empty_store))) = [''relevance'']"
    by simp
  from T[THEN conjunct2, THEN conjunct2] have "\<forall>df n. distinct (map fst (compute_assessment_stats_by_source df n))
             \<and> set (map fst (compute_assessment_stats_by_source df n))
                 = ae_source ` {row \<in> set df. ae_name row = n}
             \<and> stats_batches count_metric ''run1'' df [n]
                 = map (\<lambda>p. (''run1'', count_metric (snd p)))
                     (compute_assessment_stats_by_source df n)" .
  then have "set (map fst (compute_assessment_stats_by_source
                [?r, assessment_to_entity ''e'' relevance_by_code] ''relevance''))
        = ae_source ` {row \<in> set [?r, assessment_to_entity ''e'' relevance_by_code].
                         ae_name row = ''relevance''}"
    by blast
  also have "{row \<in> set [?r, assessment_to_entity ''e'' relevance_by_code].
                 ae_name row = ''relevance''}
              = {?r, assessment_to_entity ''e'' relevance_by_code}"
    by (auto simp: assessment_to_entity_def relevant_by_human_def relevance_by_code_def)
  also have "ae_source ` {?r, assessment_to_entity ''e'' relevance_by_code}
               = {AssessmentSource HUMAN ''user1'', AssessmentSource CODE ''scorer''}"
    by (simp add: assessment_to_entity_def relevant_by_human_def relevance_by_code_def)
  finally have third: "set (map fst (compute_assessment_stats_by_source
                [?r, assessment_to_entity ''e'' relevance_by_code] ''relevance''))
        = {AssessmentSource HUMAN ''user1'', AssessmentSource CODE ''scorer''}" .
  from first second third show ?thesis by (intro conjI)
qed

subsection \<open>The entry points and the value types of a batch\<close>

text \<open>
  Claim C1, at a batch of one evaluation whose two assessments have one name, a boolean
  value and a numeric value. \<^verbatim>\<open>log_evaluations\<close> does not fail: it calls no
  validation (the call of line 74 is in \<^verbatim>\<open>log_evaluation\<close> only), returns the
  evaluation, and writes the three tables, the assessments table with both rows; the
  table it persists breaks the invariant that the merge engine enforces.
\<close>

theorem log_evaluations_persists_mixed_value_types:
  "a_name relevant_by_human = a_name relevance_by_code
   \<and> value_type_of (a_value relevant_by_human) \<noteq> value_type_of (a_value relevance_by_code)
   \<and> assessments mixed_evaluation = Some [relevant_by_human, relevance_by_code]
   \<and> fst (log_evaluations count_metric [mixed_evaluation] (Some ''run1'') empty_store)
       = Inr [evaluation_to_entity ''run1'' ''e'' mixed_evaluation]
   \<and> map fst (artifacts (snd (log_evaluations count_metric [mixed_evaluation] (Some ''run1'')
                              empty_store)) ''run1'')
       = [''_evaluations.json'', ''_metrics.json'', ''_assessments.json'']
   \<and> map_of (artifacts (snd (log_evaluations count_metric [mixed_evaluation] (Some ''run1'')
                              empty_store)) ''run1'') ''_assessments.json''
       = Some (AssessmentsTable [assessment_to_entity ''e'' relevant_by_human,
                                 assessment_to_entity ''e'' relevance_by_code])
   \<and> \<not> same_value_type_per_name [assessment_to_entity ''e'' relevant_by_human,
                                   assessment_to_entity ''e'' relevance_by_code]"
proof -
  have logged:
    "a_name relevant_by_human = a_name relevance_by_code
     \<and> value_type_of (a_value relevant_by_human) \<noteq> value_type_of (a_value relevance_by_code)
     \<and> assessments mixed_evaluation = Some [relevant_by_human, relevance_by_code]
     \<and> fst (log_evaluations count_metric [mixed_evaluation] (Some ''run1'') empty_store)
         = Inr [evaluation_to_entity ''run1'' ''e'' mixed_evaluation]
     \<and> map fst (artifacts (snd (log_evaluations count_metric [mixed_evaluation] (Some ''run1'')
                                empty_store)) ''run1'')
         = [''_evaluations.json'', ''_metrics.json'', ''_assessments.json'']
     \<and> map_of (artifacts (snd (log_evaluations count_metric [mixed_evaluation] (Some ''run1'')
                                empty_store)) ''run1'') ''_assessments.json''
         = Some (AssessmentsTable [assessment_to_entity ''e'' relevant_by_human,
                                   assessment_to_entity ''e'' relevance_by_code])"
    by (simp add: log_evaluations_def and_then_def log_table_def uuid4_hex_def
          empty_store_def evaluations_to_dataframes_def Let_def update_assessments_stats_eq
          evaluation_to_entity_def mixed_evaluation_def relevant_by_human_def
          relevance_by_code_def assessment_to_entity_def)
  have broken:
    "\<not> same_value_type_per_name [assessment_to_entity ''e'' relevant_by_human,
                                  assessment_to_entity ''e'' relevance_by_code]"
    by (simp add: same_value_type_per_name_def get_value_type_def assessment_to_entity_def
          relevant_by_human_def relevance_by_code_def)
  from logged broken show ?thesis by simp
qed

text \<open>
  Claim C5, at inputs of both forms. \<^verbatim>\<open>log_evaluation\<close> looks at the first element
  only: an object followed by a dictionary passes the check of the forms, and the call
  fails later without \<^verbatim>\<open>INVALID_PARAMETER_VALUE\<close>, whereas a dictionary followed by
  an object is refused with it. \<^verbatim>\<open>log_assessments\<close> refuses both orders, with a
  \<^verbatim>\<open>ValueError\<close>, once the evaluation has been found; before that it fails with
  \<^verbatim>\<open>RESOURCE_DOES_NOT_EXIST\<close>.
\<close>

theorem log_evaluation_object_then_dictionary:
  "mixed_forms [AssessmentObj relevant_by_human, AssessmentDict irrelevant_by_code]
   \<and> log_evaluation count_metric [(''question'', ''q1'')] [(''answer'', ''a1'')] None None None
       (Some [AssessmentObj relevant_by_human, AssessmentDict irrelevant_by_code]) None
       (Some ''run1'') empty_store
     = (Inl AttributeError, empty_store)
   \<and> log_evaluation count_metric [(''question'', ''q1'')] [(''answer'', ''a1'')] None None None
       (Some [AssessmentDict irrelevant_by_code, AssessmentObj relevant_by_human]) None
       (Some ''run1'') empty_store
     = (Inl (MlflowException AllElementsMustBeDictionaries INVALID_PARAMETER_VALUE),
        empty_store)
   \<and> fst (log_assessments count_metric ''e''
            (Several [AssessmentObj irrelevant_by_human, AssessmentDict irrelevant_by_code])
            (Some ''run1'') logged_store)
     = Inl (ValueError AllElementsMustBeDictionaries)
   \<and> fst (log_assessments count_metric ''e''
            (Several [AssessmentObj irrelevant_by_human, AssessmentDict irrelevant_by_code])
            (Some ''run1'') empty_store)
     = Inl (MlflowException RunDoesNotContainEvaluations RESOURCE_DOES_NOT_EXIST)"
proof -
  let ?r = "assessment_to_entity ''e'' relevant_by_human"
  let ?arg = "Several [AssessmentObj irrelevant_by_human, AssessmentDict irrelevant_by_code]"
  have 1: "mixed_forms [AssessmentObj relevant_by_human, AssessmentDict irrelevant_by_code]"
    by (simp add: mixed_forms_def)
  have 2: "log_evaluation count_metric [(''question'', ''q1'')] [(''answer'', ''a1'')] None None
       None (Some [AssessmentObj relevant_by_human, AssessmentDict irrelevant_by_code]) None
       (Some ''run1'') empty_store
     = (Inl AttributeError, empty_store)"
    by (simp add: log_evaluation_def and_then_def lift_def
          verify_assessments_have_same_value_type_def)
  have 3: "log_evaluation count_metric [(''question'', ''q1'')] [(''answer'', ''a1'')] None None
       None (Some [AssessmentDict irrelevant_by_code, AssessmentObj relevant_by_human]) None
       (Some ''run1'') empty_store
     = (Inl (MlflowException AllElementsMustBeDictionaries INVALID_PARAMETER_VALUE),
        empty_store)"
    by (simp add: log_evaluation_def and_then_def lift_def)
  have tables: "has_tables logged_store ''run1''"
    "map_of (artifacts logged_store ''run1'') ''_evaluations.json''
       = Some (EvaluationsTable [one_evaluation_row])"
    "map_of (artifacts logged_store ''run1'') ''_metrics.json'' = Some (MetricsTable [])"
    "map_of (artifacts logged_store ''run1'') ''_assessments.json''
       = Some (AssessmentsTable [?r])"
    "filter (\<lambda>row. er_evaluation_id row = ''e'') [one_evaluation_row] \<noteq> []"
    by (simp_all add: has_tables_def logged_store_def empty_store_def one_evaluation_row_def)
  obtain ev s1 where g: "get_evaluation ''run1'' ''e'' logged_store = (Inr ev, s1)"
    using get_evaluation_found[OF tables]
    by (simp add: one_evaluation_row_def dataframes_to_evaluations_def)
  have rl: "''run1'' = (case Some ''run1'' of Some r \<Rightarrow> r | None \<Rightarrow> get_or_start_run logged_store)"
    and re: "''run1'' = (case Some ''run1'' of Some r \<Rightarrow> r | None \<Rightarrow> get_or_start_run empty_store)"
    by simp_all
  have 4: "fst (log_assessments count_metric ''e'' ?arg (Some ''run1'') logged_store)
     = Inl (ValueError AllElementsMustBeDictionaries)"
    using log_assessments_after_fetch[OF g rl, of count_metric ?arg]
    by (simp add: mixed_forms_def)
  have no: "\<not> has_tables empty_store ''run1''"
    by (simp add: has_tables_def empty_store_def)
  from get_evaluation_no_tables[OF no, of "''e''"] obtain cs where
    g0: "get_evaluation ''run1'' ''e'' empty_store =
           (Inl (MlflowException RunDoesNotContainEvaluations RESOURCE_DOES_NOT_EXIST),
            empty_store\<lparr>calls := calls empty_store @ cs\<rparr>)" by blast
  have 5: "fst (log_assessments count_metric ''e'' ?arg (Some ''run1'') empty_store)
     = Inl (MlflowException RunDoesNotContainEvaluations RESOURCE_DOES_NOT_EXIST)"
    using log_assessments_fetch_fails[OF g0 re, of count_metric ?arg] by simp
  from 1 2 3 4 5 show ?thesis by (intro conjI)
qed

end
